theory Spec2Isabelle
  imports Main "HOL-Library.Word"
begin

section \<open>Values shared by the resolver and the orchestrator\<close>

text \<open>
  A Go \<open>[]byte\<close> is a list of 8-bit words; a Go \<open>string\<close> is a list of characters
  (Isabelle's \<open>char\<close> is one byte, as Go's string elements are).
\<close>

type_synonym byte = "8 word"
type_synonym bytes = "byte list"

text \<open>
  A Go \<open>error\<close> value. \<open>External m\<close> is an error handed back by a library or the
  operating system, \<open>CorruptInputError\<close> is the error of \<open>encoding/base64\<close> (its input
  offset is not modelled), and \<open>Errorf p e\<close> is \<open>fmt.Errorf("p: %v", e)\<close>: the
  message prefix of the call site wrapped around the cause.
\<close>

datatype error =
    External string
  | CorruptInputError
  | Errorf string error

text \<open>The two run-time panics the code can raise.\<close>

datatype panic =
    NilPointerDereference
  | RegexpMustCompile string error

text \<open>
  What a Go function of type \<open>(T, error)\<close> does: it returns a value, returns an
  error, or panics.
\<close>

datatype 'a result =
    Ok 'a
  | Err error
  | Panics panic

section \<open>The standard base64 encoding (\<open>base64.StdEncoding\<close>)\<close>

definition encodeStd :: string where
  "encodeStd = ''ABCDEFGHIJKLMNOPQRSTUVWXYZabcdefghijklmnopqrstuvwxyz0123456789+/''"

definition StdPadding :: char where
  "StdPadding = CHR ''=''"

text \<open>\<open>enc.encode[i]\<close>, used at indices below 64 only.\<close>

definition encode_at :: "nat \<Rightarrow> char" where
  "encode_at i = encodeStd ! (i mod 64)"

text \<open>\<open>enc.decodeMap[c]\<close>: the index of \<open>c\<close> in the alphabet, \<open>None\<close> for Go's \<open>0xFF\<close>.\<close>

definition decodeMap :: "char \<Rightarrow> nat option" where
  "decodeMap c = map_of (zip encodeStd [0 ..< 64]) c"

text \<open>
  \<open>EncodeToString\<close>: three bytes become four characters; a remainder of one byte
  becomes two characters and \<open>==\<close>, a remainder of two bytes three characters and
  \<open>=\<close>. \<open>val\<close> is a Go \<open>uint\<close> below \<open>2 ^ 24\<close>, so nothing wraps.
\<close>

fun EncodeToString :: "bytes \<Rightarrow> string" where
  "EncodeToString (a # b # c # rest) =
     (let val = unat a * 65536 + unat b * 256 + unat c
      in encode_at (val div 262144) # encode_at (val div 4096) #
         encode_at (val div 64) # encode_at val # EncodeToString rest)"
| "EncodeToString [a, b] =
     (let val = unat a * 65536 + unat b * 256
      in [encode_at (val div 262144), encode_at (val div 4096),
          encode_at (val div 64), StdPadding])"
| "EncodeToString [a] =
     (let val = unat a * 65536
      in [encode_at (val div 262144), encode_at (val div 4096),
          StdPadding, StdPadding])"
| "EncodeToString [] = []"

text \<open>
  The three bytes of one decoded quantum: \<open>val\<close> is assembled from four 6-bit digits
  and cut into bytes (\<open>byte(val >> 16)\<close>, \<open>byte(val >> 8)\<close>, \<open>byte(val)\<close>; the
  conversion to \<open>byte\<close> truncates).
\<close>

definition quantum_val :: "nat \<Rightarrow> nat \<Rightarrow> nat \<Rightarrow> nat \<Rightarrow> nat" where
  "quantum_val d0 d1 d2 d3 = d0 * 262144 + d1 * 4096 + d2 * 64 + d3"

definition byte0 :: "nat \<Rightarrow> byte" where
  "byte0 val = of_nat (val div 65536)"

definition byte1 :: "nat \<Rightarrow> byte" where
  "byte1 val = of_nat (val div 256)"

definition byte2 :: "nat \<Rightarrow> byte" where
  "byte2 val = of_nat val"

text \<open>
  Decoding of input without line breaks, quantum by quantum as \<open>decodeQuantum\<close> does:
  four alphabet characters give three bytes; padding is accepted only in the last
  quantum, as \<open>xx==\<close> (one byte) or \<open>xxx=\<close> (two bytes), with nothing after it; an
  incomplete last quantum is an error. The encoding is not strict: the unused low bits
  of a padded quantum are not checked.
\<close>

fun decodeQuanta :: "string \<Rightarrow> bytes option" where
  "decodeQuanta [] = Some []"
| "decodeQuanta (c0 # c1 # c2 # c3 # rest) =
     (case decodeMap c0 of
        None \<Rightarrow> None
      | Some d0 \<Rightarrow>
     (case decodeMap c1 of
        None \<Rightarrow> None
      | Some d1 \<Rightarrow>
     (case decodeMap c2 of
        None \<Rightarrow>
          if c2 = StdPadding \<and> c3 = StdPadding \<and> rest = []
          then Some [byte0 (quantum_val d0 d1 0 0)]
          else None
      | Some d2 \<Rightarrow>
     (case decodeMap c3 of
        None \<Rightarrow>
          if c3 = StdPadding \<and> rest = []
          then Some [byte0 (quantum_val d0 d1 d2 0), byte1 (quantum_val d0 d1 d2 0)]
          else None
      | Some d3 \<Rightarrow>
          (case decodeQuanta rest of
             None \<Rightarrow> None
           | Some bs \<Rightarrow>
               Some (byte0 (quantum_val d0 d1 d2 d3) # byte1 (quantum_val d0 d1 d2 d3) #
                     byte2 (quantum_val d0 d1 d2 d3) # bs))))))"
| "decodeQuanta _ = None"

text \<open>
  \<open>DecodeString\<close>: carriage returns and line feeds are skipped wherever they stand,
  the rest is decoded; on corrupt input the caller sees \<open>CorruptInputError\<close>.
\<close>

definition DecodeString :: "string \<Rightarrow> error + bytes" where
  "DecodeString s =
     (case decodeQuanta (filter (\<lambda>c. c \<noteq> CHR 0x0A \<and> c \<noteq> CHR 0x0D) s) of
        None \<Rightarrow> Inl CorruptInputError
      | Some bs \<Rightarrow> Inr bs)"


section \<open>The credential resolver (package \<open>gke\<close>)\<close>

text \<open>
  An \<open>oauth2.TokenSource\<close>, opaque to this code; the string names the credential it
  draws on. Each creation of a token source is recorded as a call (below).
\<close>

datatype TokenSource = TokenSource string

text \<open>Of \<open>container.Cluster\<close> the two fields read; \<open>MasterAuth\<close> is a pointer.\<close>

record master_auth =
  ClusterCaCertificate :: string

record cluster =
  Endpoint :: string
  MasterAuth :: "master_auth option"

text \<open>
  \<open>rest.Config\<close> as built here: \<open>CAData\<close> is \<open>TLSClientConfig.CAData\<close>, and
  \<open>WrapTransport\<close> holds the token source that
  \<open>transport.TokenSourceWrapTransport\<close> wraps.
\<close>

record rest_Config =
  Host :: string
  CAData :: bytes
  WrapTransport :: TokenSource
  UserAgent :: string

text \<open>
  The calls the resolver makes to the file system, the credential library and the
  cluster-management API, in the order it makes them.
\<close>

datatype gcp_call =
    Call_ReadFile string
  | Call_CredentialsFromJSON bytes
  | Call_DefaultTokenSource
  | Call_NewService TokenSource
  | Call_ClustersGet string

section \<open>The objects of the orchestrator (package \<open>main\<close>)\<close>

text \<open>
  \<open>runtime.Command\<close> is a string type; \<open>TestCommand\<close> is its value \<open>test\<close>.
\<close>

type_synonym Command = string

definition TestCommand :: Command where
  "TestCommand = ''test''"

text \<open>
  The objects handed between the collaborators, each kept as what it was built from:
  the Vault client with its token, the Kubernetes clientset with its configuration,
  the metadata store, the compiled expression, the context parameters and the addon
  context of a cluster.
\<close>

datatype VaultClient = VaultClient (Token: string)

datatype Clientset = Clientset rest_Config

datatype Store = Store Clientset string

datatype Regexp = Regexp string

type_synonym params = "(string \<times> string) list"

datatype SkyCtx = SkyCtx params

record runtime_Config =
  EntryFile :: string
  GCPSvcAcctKeyFile :: string
  Config_UserAgent :: string
  KubeConfigPath :: string
  Config_Store :: "Store option"
  DryRun :: bool

datatype runtime_Option =
    WithVault VaultClient
  | WithKube rest_Config bool
  | WithHelm string
  | WithAddonRegex Regexp
  | WithNoSpin

text \<open>A \<open>runtime.Runtime\<close>: the configuration and options \<open>runtime.New\<close> made it from.\<close>

datatype Runtime = Runtime runtime_Config "runtime_Option list"

text \<open>
  What the orchestrator does towards the outside, in the order a run does it: the calls
  to its collaborators, the error lines it logs and the version it prints. A call of a
  vendor's \<open>KubeConfig\<close> carries the calls the resolver made inside it.
\<close>

datatype event =
    Call_RunUnitTests string
  | Call_ParseCommaSeparatedParams string
  | Call_VaultNewClient
  | Call_NewForConfig rest_Config
  | Call_RuntimeNew runtime_Config "runtime_Option list"
  | Call_Load Runtime
  | Call_ForEachCluster Runtime params
  | Call_KubeConfig string "gcp_call list"
  | Call_Run Runtime Command SkyCtx
  | Log_Errorf string error
  | Print_Version

text \<open>A function's result together with what it did; \<open>after\<close> puts earlier events in front.\<close>

type_synonym 'a traced = "'a \<times> event list"

definition after :: "'e list \<Rightarrow> 'a \<times> 'e list \<Rightarrow> 'a \<times> 'e list" where
  "after evs r = (fst r, evs @ snd r)"

text \<open>
  The services the resolver calls: \<open>ioutil.ReadFile\<close>,
  \<open>google.CredentialsFromJSON\<close> (its \<open>TokenSource\<close> field),
  \<open>google.DefaultTokenSource\<close>, \<open>container.NewService\<close> and the
  \<open>Clusters.Get(name).Do()\<close> call of the service made for a token source.
\<close>

record gcp =
  ReadFile :: "string \<Rightarrow> error + bytes"
  CredentialsFromJSON :: "bytes \<Rightarrow> error + TokenSource"
  DefaultTokenSource :: "error + TokenSource"
  NewService :: "TokenSource \<Rightarrow> error option"
  Clusters_Get :: "TokenSource \<Rightarrow> string \<Rightarrow> error + cluster"

definition GoogleCredTokenSourceFromSAKey :: "gcp \<Rightarrow> string \<Rightarrow> TokenSource result \<times> gcp_call list" where
  "GoogleCredTokenSourceFromSAKey g svcAcctKeyFile =
     after [Call_ReadFile svcAcctKeyFile]
     (case ReadFile g svcAcctKeyFile of
        Inl err \<Rightarrow>
          (Err (Errorf (''failed to read the SA key json file `'' @ svcAcctKeyFile @ [CHR 0x27]) err), [])
      | Inr b \<Rightarrow>
          after [Call_CredentialsFromJSON b]
          (case CredentialsFromJSON g b of
             Inl err \<Rightarrow> (Err (Errorf ''failed to extract credentials from json'' err), [])
           | Inr tokenSrc \<Rightarrow> (Ok tokenSrc, [])))"

definition buildKubeRestConf ::
  "gcp \<Rightarrow> string \<Rightarrow> string \<Rightarrow> string \<Rightarrow> string \<Rightarrow> TokenSource \<Rightarrow> rest_Config result \<times> gcp_call list" where
  "buildKubeRestConf g clusterName location project userAgent tokenSrc =
     after [Call_NewService tokenSrc]
     (case NewService g tokenSrc of
        Some err \<Rightarrow> (Err (Errorf ''failed to create the container service'' err), [])
      | None \<Rightarrow>
          (let name = ''projects/'' @ project @ ''/locations/'' @ location @
                      ''/clusters/'' @ clusterName
           in after [Call_ClustersGet name]
              (case Clusters_Get g tokenSrc name of
                 Inl err \<Rightarrow> (Err (Errorf ''failed to retrieve cluster info'' err), [])
               | Inr cluster \<Rightarrow>
                   (case MasterAuth cluster of
                      None \<Rightarrow> (Panics NilPointerDereference, [])
                    | Some ma \<Rightarrow>
                        (case DecodeString (ClusterCaCertificate ma) of
                           Inl err \<Rightarrow>
                             (Err (Errorf ''failed to base64 decode the cluster CA cert'' err), [])
                         | Inr caCert \<Rightarrow>
                             (Ok \<lparr>Host = ''https://'' @ Endpoint cluster,
                                  CAData = caCert,
                                  WrapTransport = tokenSrc,
                                  UserAgent = userAgent\<rparr>, []))))))"

definition BuildKubeRestConfDefaultCred ::
  "gcp \<Rightarrow> string \<Rightarrow> string \<Rightarrow> string \<Rightarrow> string \<Rightarrow> rest_Config result \<times> gcp_call list" where
  "BuildKubeRestConfDefaultCred g clusterName location project userAgent =
     after [Call_DefaultTokenSource]
     (case DefaultTokenSource g of
        Inl err \<Rightarrow> (Err (Errorf ''failed to create the google DefaultTokenSource'' err), [])
      | Inr tokenSrc \<Rightarrow> buildKubeRestConf g clusterName location project userAgent tokenSrc)"

definition BuildKubeRestConfSACred ::
  "gcp \<Rightarrow> string \<Rightarrow> string \<Rightarrow> string \<Rightarrow> string \<Rightarrow> string \<Rightarrow> rest_Config result \<times> gcp_call list" where
  "BuildKubeRestConfSACred g clusterName location project svcAcctKeyFile userAgent =
     (if svcAcctKeyFile = ''''
      then BuildKubeRestConfDefaultCred g clusterName location project userAgent
      else (case GoogleCredTokenSourceFromSAKey g svcAcctKeyFile of
              (Ok TokenSrc, evs) \<Rightarrow>
                after evs (buildKubeRestConf g clusterName location project userAgent TokenSrc)
            | (Err err, evs) \<Rightarrow>
                (Err (Errorf ''failed to get token source from service account'' err), evs)
            | (Panics p, evs) \<Rightarrow> (Panics p, evs)))"

section \<open>The orchestrator (package \<open>main\<close>)\<close>

definition version :: string where
  "version = ''<unknown>''"

text \<open>
  The command line as the \<open>flag\<close> package reads it: for each flag the value given, if
  any, and the arguments left over. \<open>Rejected\<close> is a command line the package refuses;
  \<open>flag.Parse\<close> then ends the process itself.
\<close>

record cmdline =
  opt_vault_token :: "string option"
  opt_namespace :: "string option"
  opt_kubeconfig :: "string option"
  opt_match_addons :: "string option"
  opt_context :: "string option"
  opt_dry_run :: "bool option"
  opt_sa_key :: "string option"
  opt_nospin :: "bool option"
  opt_kube_diff :: "bool option"
  opt_version :: "bool option"
  opt_rel_path :: "string option"
  arguments :: "string list"

datatype argv = Rejected | Accepted cmdline

text \<open>The package-level flag variables after \<open>flag.Parse\<close>, and \<open>flag.Args()\<close>.\<close>

record flags =
  vaultToken :: string
  namespace :: string
  kubeconfig :: string
  addonRegex :: string
  isopodCtx :: string
  dryRun :: bool
  svcAcctKeyFile :: string
  noSpin :: bool
  kubeDiff :: bool
  showVersion :: bool
  relativePath :: string
  Args :: "string list"

text \<open>
  How the process ends: \<open>main\<close> returns (exit status 0), \<open>os.Exit\<close> with a status,
  the logging library's \<open>Exitf\<close> and \<open>Fatalf\<close> (which choose the status themselves), a
  panic, or the exit inside \<open>flag.Parse\<close>. \<open>LogExitf p (Some e)\<close> is
  \<open>log.Exitf("p: %v", e)\<close>.
\<close>

datatype outcome =
    Return
  | OsExit int
  | LogExitf string "error option"
  | LogFatalf string
  | Panic panic
  | FlagParseExit


text \<open>Each flag's value is the one given, else its default; the token's default is \<open>$VAULT_TOKEN\<close>.\<close>

definition flag_Parse :: "(string \<Rightarrow> string) \<Rightarrow> cmdline \<Rightarrow> flags" where
  "flag_Parse Getenv c =
     \<lparr>vaultToken = (case opt_vault_token c of None \<Rightarrow> Getenv ''VAULT_TOKEN'' | Some v \<Rightarrow> v),
      namespace = (case opt_namespace c of None \<Rightarrow> ''default'' | Some v \<Rightarrow> v),
      kubeconfig = (case opt_kubeconfig c of None \<Rightarrow> '''' | Some v \<Rightarrow> v),
      addonRegex = (case opt_match_addons c of None \<Rightarrow> '''' | Some v \<Rightarrow> v),
      isopodCtx = (case opt_context c of None \<Rightarrow> '''' | Some v \<Rightarrow> v),
      dryRun = (case opt_dry_run c of None \<Rightarrow> False | Some v \<Rightarrow> v),
      svcAcctKeyFile = (case opt_sa_key c of None \<Rightarrow> '''' | Some v \<Rightarrow> v),
      noSpin = (case opt_nospin c of None \<Rightarrow> False | Some v \<Rightarrow> v),
      kubeDiff = (case opt_kube_diff c of None \<Rightarrow> False | Some v \<Rightarrow> v),
      showVersion = (case opt_version c of None \<Rightarrow> False | Some v \<Rightarrow> v),
      relativePath = (case opt_rel_path c of None \<Rightarrow> '''' | Some v \<Rightarrow> v),
      Args = arguments c\<rparr>"

text \<open>\<open>init\<close>: the process goes on to \<open>main\<close> with the flags, or ends here.\<close>

definition init :: "(string \<Rightarrow> string) \<Rightarrow> argv \<Rightarrow> outcome + flags" where
  "init Getenv a =
     (case a of
        Rejected \<Rightarrow> Inl FlagParseExit
      | Accepted c \<Rightarrow>
          (let f = flag_Parse Getenv c
           in if vaultToken f = ''''
              then Inl (LogFatalf ''--vault_token or $VAULT_TOKEN must be set'')
              else Inr f))"

definition usageAndDie :: outcome where
  "usageAndDie = OsExit 1"

fun getCmdAndPath :: "string list \<Rightarrow> outcome + Command \<times> string" where
  "getCmdAndPath [] = Inl usageAndDie"
| "getCmdAndPath [cmd] = (if cmd = TestCommand then Inr (cmd, '''') else Inl usageAndDie)"
| "getCmdAndPath (cmd # path # _) = Inr (cmd, path)"

text \<open>
  A \<open>cloud.KubernetesVendor\<close>, an interface value: how it prints, what its
  \<open>KubeConfig\<close> method returns together with the calls that method makes, and its
  addon context.
\<close>

record KubernetesVendor =
  vendor_String :: string
  KubeConfig :: "rest_Config result \<times> gcp_call list"
  AddonSkyCtx :: SkyCtx

text \<open>
  The collaborators of \<open>main\<close>: the unit-test runner (Go's pair of a boolean and an
  error), \<open>util.ParseCommaSeparatedParams\<close>, \<open>runtime.New\<close>, a runtime's \<open>Load\<close>
  and \<open>Run\<close>, \<open>vaultapi.NewClient(nil)\<close>, \<open>kubernetes.NewForConfig\<close>,
  \<open>regexp.Compile\<close> (inside \<open>regexp.MustCompile\<close>) and \<open>filepath.Dir\<close>.
  \<open>clusters_yielded\<close> is what cluster discovery does inside \<open>ForEachCluster\<close>: the
  vendors it hands to the visitor one after the other, and the error it ends with, if any.
\<close>

record collaborators =
  RunUnitTests :: "string \<Rightarrow> bool \<times> error option"
  ParseCommaSeparatedParams :: "string \<Rightarrow> error + params"
  runtime_New :: "runtime_Config \<Rightarrow> runtime_Option list \<Rightarrow> error option"
  Load :: "Runtime \<Rightarrow> error option"
  Run :: "Runtime \<Rightarrow> Command \<Rightarrow> SkyCtx \<Rightarrow> error option"
  clusters_yielded :: "Runtime \<Rightarrow> params \<Rightarrow> KubernetesVendor list \<times> error option"
  vaultapi_NewClient :: "error + VaultClient"
  kubernetes_NewForConfig :: "rest_Config \<Rightarrow> error option"
  regexp_Compile :: "string \<Rightarrow> error option"
  filepath_Dir :: "string \<Rightarrow> string"

definition buildClustersRuntime :: "collaborators \<Rightarrow> flags \<Rightarrow> string \<Rightarrow> (outcome + Runtime) traced" where
  "buildClustersRuntime w f mainFile =
     (let config = \<lparr>EntryFile = mainFile,
                     GCPSvcAcctKeyFile = svcAcctKeyFile f,
                     Config_UserAgent = ''Isopod/'' @ version,
                     KubeConfigPath = kubeconfig f,
                     Config_Store = None,
                     DryRun = dryRun f\<rparr>
      in after [Call_RuntimeNew config []]
         (case runtime_New w config [] of
            Some err \<Rightarrow> (Inl (LogExitf ''Failed to initialize clusters runtime'' (Some err)), [])
          | None \<Rightarrow> (Inr (Runtime config []), [])))"

definition buildAddonsRuntime ::
  "collaborators \<Rightarrow> flags \<Rightarrow> rest_Config \<Rightarrow> string \<Rightarrow> Runtime result traced" where
  "buildAddonsRuntime w f kubeC mainFile =
     after [Call_VaultNewClient]
     (case vaultapi_NewClient w of
        Inl err \<Rightarrow> (Err (Errorf ''failed to initialize Vault client'' err), [])
      | Inr vaultC0 \<Rightarrow>
          (let vaultC = (if vaultToken f \<noteq> '''' then VaultClient (vaultToken f) else vaultC0)
           in after [Call_NewForConfig kubeC]
              (case kubernetes_NewForConfig w kubeC of
                 Some err \<Rightarrow> (Err (Errorf ''failed to create Kubernetes clientset'' err), [])
               | None \<Rightarrow>
                   (let cs = Clientset kubeC;
                        helmBaseDir = (if relativePath f = '''' then filepath_Dir w mainFile
                                       else relativePath f);
                        st = Store cs (namespace f)
                    in (case regexp_Compile w (addonRegex f) of
                          Some err \<Rightarrow> (Panics (RegexpMustCompile (addonRegex f) err), [])
                        | None \<Rightarrow>
                            (let opts = [WithVault vaultC,
                                         WithKube kubeC (kubeDiff f),
                                         WithHelm helmBaseDir,
                                         WithAddonRegex (Regexp (addonRegex f))] @
                                        (if noSpin f then [WithNoSpin] else []);
                                 config = \<lparr>EntryFile = mainFile,
                                            GCPSvcAcctKeyFile = svcAcctKeyFile f,
                                            Config_UserAgent = ''Isopod/'' @ version,
                                            KubeConfigPath = kubeconfig f,
                                            Config_Store = Some st,
                                            DryRun = dryRun f\<rparr>
                             in after [Call_RuntimeNew config opts]
                                (case runtime_New w config opts of
                                   Some err \<Rightarrow>
                                     (Err (Errorf ''failed to initialize addons runtime'' err), [])
                                 | None \<Rightarrow> (Ok (Runtime config opts), []))))))))"

text \<open>
  The visitor that \<open>main\<close> hands to \<open>ForEachCluster\<close> (the function literal of lines
  200 to 218), run on one vendor with the current value of \<open>errorReturned\<close>: it ends
  the process (\<open>Inl\<close>) or returns with the new value of \<open>errorReturned\<close> (\<open>Inr\<close>).
\<close>

definition visit ::
  "collaborators \<Rightarrow> flags \<Rightarrow> Command \<Rightarrow> string \<Rightarrow> KubernetesVendor \<Rightarrow> bool \<Rightarrow> (outcome + bool) traced" where
  "visit w f cmd mainFile k8sVendor errorReturned =
     after [Call_KubeConfig (vendor_String k8sVendor) (snd (KubeConfig k8sVendor))]
     (case fst (KubeConfig k8sVendor) of
        Panics p \<Rightarrow> (Inl (Panic p), [])
      | Err err \<Rightarrow>
          (Inl (LogExitf (''Failed to build kube rest config for k8s vendor '' @
                          vendor_String k8sVendor) (Some err)), [])
      | Ok kubeConfig \<Rightarrow>
          (case buildAddonsRuntime w f kubeConfig mainFile of
             (Panics p, evs) \<Rightarrow> (Inl (Panic p), evs)
           | (Err err, evs) \<Rightarrow> (Inl (LogExitf ''Failed to initialize runtime'' (Some err)), evs)
           | (Ok addons, evs) \<Rightarrow>
               after (evs @ [Call_Load addons])
               (case Load w addons of
                  Some err \<Rightarrow> (Inl (LogExitf ''Failed to load addons runtime'' (Some err)), [])
                | None \<Rightarrow>
                    after [Call_Run addons cmd (AddonSkyCtx k8sVendor)]
                    (case Run w addons cmd (AddonSkyCtx k8sVendor) of
                       Some err \<Rightarrow> (Inr True, [Log_Errorf ''addons run failed'' err])
                     | None \<Rightarrow> (Inr errorReturned, [])))))"

text \<open>
  Modelled from the spec: \<open>ForEachCluster\<close> (package \<open>runtime\<close>, not part of the
  sources at hand) calls the visitor on each cluster yielded by discovery, in the order
  discovery produces them, and returns discovery's error, if any. A visitor that ends
  the process ends the iteration with it.
\<close>

fun for_each :: "(KubernetesVendor \<Rightarrow> bool \<Rightarrow> (outcome + bool) traced) \<Rightarrow>
    KubernetesVendor list \<Rightarrow> bool \<Rightarrow> (outcome + bool) traced" where
  "for_each fn [] errorReturned = (Inr errorReturned, [])"
| "for_each fn (v # vs) errorReturned =
     (case fn v errorReturned of
        (Inl out, evs) \<Rightarrow> (Inl out, evs)
      | (Inr errorReturned', evs) \<Rightarrow> after evs (for_each fn vs errorReturned'))"

text \<open>
  Modelled from the spec: \<open>ForEachCluster\<close> itself, around that iteration. The
  vendors and the closing error come from cluster discovery (\<open>clusters_yielded\<close>);
  what it hands back to \<open>main\<close> is that error and the visitor's last value of
  \<open>errorReturned\<close>, unless a visit has ended the process.
\<close>

definition ForEachCluster ::
  "collaborators \<Rightarrow> Runtime \<Rightarrow> params \<Rightarrow> (KubernetesVendor \<Rightarrow> bool \<Rightarrow> (outcome + bool) traced) \<Rightarrow>
     bool \<Rightarrow> (outcome + error option \<times> bool) traced" where
  "ForEachCluster w clusters ctxParams fn errorReturned =
     after [Call_ForEachCluster clusters ctxParams]
     (case for_each fn (fst (clusters_yielded w clusters ctxParams)) errorReturned of
        (Inl out, evs) \<Rightarrow> (Inl out, evs)
      | (Inr errorReturned', evs) \<Rightarrow>
          (Inr (snd (clusters_yielded w clusters ctxParams), errorReturned'), evs))"

text \<open>
  \<open>main\<close>, entered with the flags \<open>init\<close> left: how the process ends and the calls
  made on the way.
\<close>

definition main :: "collaborators \<Rightarrow> flags \<Rightarrow> outcome traced" where
  "main w f =
     (if showVersion f then (Return, [Print_Version])
      else
       (case getCmdAndPath (Args f) of
          Inl out \<Rightarrow> (out, [])
        | Inr (cmd, path) \<Rightarrow>
            if cmd = TestCommand
            then after [Call_RunUnitTests path]
                 (case RunUnitTests w path of
                    (ok, Some err) \<Rightarrow> (LogExitf ''Failed to run tests'' (Some err), [])
                  | (ok, None) \<Rightarrow> if \<not> ok then (OsExit 1, []) else (Return, []))
            else if path = ''''
            then (LogExitf ''path to main Starlark entry file must be set'' None, [])
            else
              after [Call_ParseCommaSeparatedParams (isopodCtx f)]
              (case ParseCommaSeparatedParams w (isopodCtx f) of
                 Inl err \<Rightarrow> (LogExitf ''Invalid value to --context'' (Some err), [])
               | Inr ctxParams \<Rightarrow>
                   (case buildClustersRuntime w f path of
                      (Inl out, evs) \<Rightarrow> (out, evs)
                    | (Inr clusters, evs) \<Rightarrow>
                        after (evs @ [Call_Load clusters])
                        (case Load w clusters of
                           Some err \<Rightarrow> (LogExitf ''Failed to load clusters runtime'' (Some err), [])
                         | None \<Rightarrow>
                             (case ForEachCluster w clusters ctxParams (visit w f cmd path) False of
                                (Inl out, evs) \<Rightarrow> (out, evs)
                              | (Inr (Some err, errorReturned), evs) \<Rightarrow>
                                  (LogExitf ''Failed to iterate through clusters'' (Some err), evs)
                              | (Inr (None, errorReturned), evs) \<Rightarrow>
                                  if errorReturned then (OsExit 2, evs) else (Return, evs)))))))"

text \<open>The whole process: package initialisation, then \<open>main\<close>.\<close>

definition process :: "(string \<Rightarrow> string) \<Rightarrow> collaborators \<Rightarrow> argv \<Rightarrow> outcome traced" where
  "process Getenv w a =
     (case init Getenv a of
        Inl out \<Rightarrow> (out, [])
      | Inr f \<Rightarrow> main w f)"

section \<open>Notions used to state the requirements\<close>

text \<open>
  The runtime the visitor builds for a vendor: \<open>KubeConfig\<close>, then
  \<open>buildAddonsRuntime\<close> on its result.
\<close>

definition addons_for :: "collaborators \<Rightarrow> flags \<Rightarrow> string \<Rightarrow> KubernetesVendor \<Rightarrow> Runtime result" where
  "addons_for w f mainFile v =
     (case fst (KubeConfig v) of
        Ok kubeConfig \<Rightarrow> fst (buildAddonsRuntime w f kubeConfig mainFile)
      | Err err \<Rightarrow> Err err
      | Panics p \<Rightarrow> Panics p)"

text \<open>Credential resolution, construction and load of the workload runtime all succeed for a vendor.\<close>

definition steps_succeed :: "collaborators \<Rightarrow> flags \<Rightarrow> string \<Rightarrow> KubernetesVendor \<Rightarrow> bool" where
  "steps_succeed w f mainFile v =
     (case addons_for w f mainFile v of
        Ok addons \<Rightarrow> Load w addons = None
      | _ \<Rightarrow> False)"

text \<open>The workload command fails on a vendor's cluster.\<close>

definition workload_fails :: "collaborators \<Rightarrow> flags \<Rightarrow> Command \<Rightarrow> string \<Rightarrow> KubernetesVendor \<Rightarrow> bool" where
  "workload_fails w f cmd mainFile v =
     (case addons_for w f mainFile v of
        Ok addons \<Rightarrow> Run w addons cmd (AddonSkyCtx v) \<noteq> None
      | _ \<Rightarrow> False)"

text \<open>
  Read off a run: the workload executions attempted, in order; the failures logged; the
  vendors whose credentials were resolved, in order; and the number of token sources
  created from the default credentials.
\<close>

fun run_calls :: "event list \<Rightarrow> (Runtime result \<times> Command \<times> SkyCtx) list" where
  "run_calls [] = []"
| "run_calls (Call_Run addons cmd ctx # evs) = (Ok addons, cmd, ctx) # run_calls evs"
| "run_calls (_ # evs) = run_calls evs"

fun run_failures :: "event list \<Rightarrow> nat" where
  "run_failures [] = 0"
| "run_failures (Log_Errorf msg err # evs) =
     (if msg = ''addons run failed'' then Suc (run_failures evs) else run_failures evs)"
| "run_failures (_ # evs) = run_failures evs"

fun kubeconfig_calls :: "event list \<Rightarrow> string list" where
  "kubeconfig_calls [] = []"
| "kubeconfig_calls (Call_KubeConfig name calls # evs) = name # kubeconfig_calls evs"
| "kubeconfig_calls (_ # evs) = kubeconfig_calls evs"

fun default_token_sources :: "event list \<Rightarrow> nat" where
  "default_token_sources [] = 0"
| "default_token_sources (Call_KubeConfig name calls # evs) =
     count_list calls Call_DefaultTokenSource + default_token_sources evs"
| "default_token_sources (_ # evs) = default_token_sources evs"

text \<open>
  \<open>main\<close> gets as far as the iteration over the clusters: no version request, a
  command other than \<open>test\<close> with a path, context parameters that parse, and a
  clusters runtime that is built and loads.
\<close>

definition reaches_clusters ::
  "collaborators \<Rightarrow> flags \<Rightarrow> Command \<Rightarrow> string \<Rightarrow> params \<Rightarrow> Runtime \<Rightarrow> bool" where
  "reaches_clusters w f cmd path ctxParams clusters =
     (\<not> showVersion f \<and> getCmdAndPath (Args f) = Inr (cmd, path) \<and> cmd \<noteq> TestCommand \<and>
      path \<noteq> '''' \<and> ParseCommaSeparatedParams w (isopodCtx f) = Inr ctxParams \<and>
      fst (buildClustersRuntime w f path) = Inr clusters \<and> Load w clusters = None)"

section \<open>A concrete environment\<close>

text \<open>
  A cluster-management API that knows one cluster, whose CA certificate field is \<open>ca\<close>;
  one readable key file; default credentials present.
\<close>

definition example_gcp :: "string \<Rightarrow> gcp" where
  "example_gcp ca =
     \<lparr>ReadFile = (\<lambda>path. if path = ''/key.json'' then Inr [] else Inl (External ''no such file'')),
      CredentialsFromJSON = (\<lambda>b. Inr (TokenSource ''service-account'')),
      DefaultTokenSource = Inr (TokenSource ''default''),
      NewService = (\<lambda>ts. None),
      Clusters_Get = (\<lambda>ts name. Inr \<lparr>Endpoint = ''10.0.0.1'',
                                        MasterAuth = Some \<lparr>ClusterCaCertificate = ca\<rparr>\<rparr>)\<rparr>"

text \<open>A GKE vendor whose \<open>KubeConfig\<close> goes through the resolver's entry point.\<close>

definition example_vendor :: "gcp \<Rightarrow> string \<Rightarrow> string \<Rightarrow> KubernetesVendor" where
  "example_vendor g clusterName key =
     \<lparr>vendor_String = clusterName,
      KubeConfig = BuildKubeRestConfSACred g clusterName ''us-central1'' ''acme'' key
                     (''Isopod/'' @ version),
      AddonSkyCtx = SkyCtx [(''cluster'', clusterName)]\<rparr>"

text \<open>
  Collaborators that all succeed, except that the workload command fails on the
  clusters named in \<open>failing\<close>; discovery yields \<open>vendors\<close>; the only malformed
  expression is \<open>(\<close>; the Vault client cannot be made when \<open>vault_down\<close> holds.
\<close>

definition example_world :: "KubernetesVendor list \<Rightarrow> string list \<Rightarrow> bool \<Rightarrow> collaborators" where
  "example_world vendors failing vault_down =
     \<lparr>RunUnitTests = (\<lambda>path. (False, None)),
      ParseCommaSeparatedParams = (\<lambda>s. Inr []),
      runtime_New = (\<lambda>config opts. None),
      Load = (\<lambda>rt. None),
      Run = (\<lambda>rt cmd ctx.
               (case ctx of SkyCtx ps \<Rightarrow>
                  if \<exists>n \<in> set failing. (''cluster'', n) \<in> set ps
                  then Some (External ''apply failed'') else None)),
      clusters_yielded = (\<lambda>rt ps. (vendors, None)),
      vaultapi_NewClient = (if vault_down then Inl (External ''bad VAULT_ADDR'')
                            else Inr (VaultClient '''')),
      kubernetes_NewForConfig = (\<lambda>c. None),
      regexp_Compile = (\<lambda>s. if s = ''('' then Some (External ''missing closing )'') else None),
      filepath_Dir = (\<lambda>p. ''.'')\<rparr>"

definition example_flags :: "string list \<Rightarrow> flags" where
  "example_flags argv =
     \<lparr>vaultToken = ''s.token'', namespace = ''default'', kubeconfig = '''', addonRegex = '''',
      isopodCtx = '''', dryRun = False, svcAcctKeyFile = '''', noSpin = False,
      kubeDiff = False, showVersion = False, relativePath = '''', Args = argv\<rparr>"

text \<open>Three clusters resolved with the default credentials.\<close>

definition three_clusters :: "KubernetesVendor list" where
  "three_clusters =
     [example_vendor (example_gcp '''') ''a'' '''',
      example_vendor (example_gcp '''') ''b'' '''',
      example_vendor (example_gcp '''') ''c'' '''']"

text \<open>A command line that sets at most the Vault token, and an environment with no variable set.\<close>

definition example_cmdline :: "string option \<Rightarrow> string list \<Rightarrow> cmdline" where
  "example_cmdline token argv =
     \<lparr>opt_vault_token = token, opt_namespace = None, opt_kubeconfig = None,
      opt_match_addons = None, opt_context = None, opt_dry_run = None, opt_sa_key = None,
      opt_nospin = None, opt_kube_diff = None, opt_version = None, opt_rel_path = None,
      arguments = argv\<rparr>"

definition empty_environment :: "string \<Rightarrow> string" where
  "empty_environment name = ''''"

text \<open>The outcome of the test phase, from what the unit-test runner returned.\<close>

definition test_outcome :: "bool \<times> error option \<Rightarrow> outcome" where
  "test_outcome r =
     (case r of
        (ok, Some err) \<Rightarrow> LogExitf ''Failed to run tests'' (Some err)
      | (ok, None) \<Rightarrow> if ok then Return else OsExit 1)"



section \<open>Properties of the base64 encoding\<close>

lemma byte_lt: "unat (a :: byte) < 256"
  using unsigned_less [of a] by simp

lemma sextets_split:
  fixes v :: nat
  shows "v = (v div 262144) * 262144 + ((v div 4096) mod 64) * 4096 + ((v div 64) mod 64) * 64 + v mod 64"
proof -
  define w1 where "w1 = v div 64"
  define w2 where "w2 = w1 div 64"
  define w3 where "w3 = w2 div 64"
  have e1: "v = w1 * 64 + v mod 64" by (simp add: w1_def)
  have e2: "w1 = w2 * 64 + w1 mod 64" by (simp add: w2_def)
  have e3: "w2 = w3 * 64 + w2 mod 64" by (simp add: w3_def)
  have d2: "v div 4096 = w2" by (simp add: w2_def w1_def div_mult2_eq)
  have d3: "v div 262144 = w3" by (simp add: w3_def w2_def w1_def div_mult2_eq)
  from e1 e2 e3 have "v = w3 * 262144 + (w2 mod 64) * 4096 + (w1 mod 64) * 64 + v mod 64"
    by linarith
  then show ?thesis by (simp add: d2 d3 w1_def)
qed

lemma quantum_val_full:
  assumes "v < 16777216"
  shows "quantum_val ((v div 262144) mod 64) ((v div 4096) mod 64) ((v div 64) mod 64) (v mod 64) = v"
proof -
  from assms have "v div 262144 < 64" by (simp add: less_mult_imp_div_less)
  then have "(v div 262144) mod 64 = v div 262144" by simp
  then show ?thesis unfolding quantum_val_def using sextets_split [of v] by simp
qed

lemma val3_bound: fixes a b c :: byte shows "unat a * 65536 + unat b * 256 + unat c < 16777216"
  using byte_lt [of a] byte_lt [of b] byte_lt [of c] by linarith

lemma byte0_val: fixes a :: byte assumes "r < 65536" shows "byte0 (unat a * 65536 + r) = a"
proof -
  have "(unat a * 65536 + r) div 65536 = unat a" using assms by simp
  then show ?thesis by (simp add: byte0_def)
qed

lemma of_nat_byte_drop: "(of_nat (k * 256 + n) :: byte) = of_nat n"
  unfolding word_of_nat_eq_iff take_bit_eq_mod by simp

lemma byte1_val: fixes b :: byte assumes "r < 256" shows "byte1 (n * 65536 + unat b * 256 + r) = b"
proof -
  have "(n * 65536 + unat b * 256 + r) div 256 = n * 256 + unat b" using assms by simp
  then show ?thesis unfolding byte1_def by (simp only: of_nat_byte_drop of_nat_unat ucast_id)
qed

lemma byte2_val: fixes c :: byte shows "byte2 (n * 65536 + m * 256 + unat c) = c"
proof -
  have "n * 65536 + m * 256 + unat c = (n * 256 + m) * 256 + unat c" by simp
  then show ?thesis unfolding byte2_def by (simp only: of_nat_byte_drop of_nat_unat ucast_id)
qed

lemma length_encodeStd: "length encodeStd = 64"
  by (simp add: encodeStd_def)

lemma distinct_encodeStd: "distinct encodeStd"
  by (simp add: encodeStd_def)

lemma decodeMap_encode_at: "decodeMap (encode_at i) = Some (i mod 64)"
proof -
  have "map_of (zip encodeStd [0 ..< 64]) (encodeStd ! (i mod 64)) = Some ([0 ..< 64] ! (i mod 64))"
    by (rule map_of_zip_nth) (simp_all add: length_encodeStd distinct_encodeStd)
  then show ?thesis by (simp add: decodeMap_def encode_at_def)
qed

lemma decodeMap_padding: "decodeMap StdPadding = None"
proof -
  have "StdPadding \<notin> set encodeStd" by (simp add: StdPadding_def encodeStd_def)
  moreover have "map fst (zip encodeStd [0 ..< 64]) = encodeStd"
    by (simp add: length_encodeStd)
  ultimately show ?thesis
    unfolding decodeMap_def map_of_eq_None_iff set_map [symmetric] by simp
qed

lemma encode_at_not_newline: "encode_at i \<noteq> CHR 0x0A \<and> encode_at i \<noteq> CHR 0x0D"
proof -
  have "encodeStd ! (i mod 64) \<in> set encodeStd"
    by (rule nth_mem) (simp add: length_encodeStd)
  then show ?thesis unfolding encode_at_def by (auto simp: encodeStd_def)
qed


lemma decode_quantum3:
  fixes a b c :: byte
  defines "v \<equiv> unat a * 65536 + unat b * 256 + unat c"
  shows "quantum_val ((v div 262144) mod 64) ((v div 4096) mod 64) ((v div 64) mod 64) (v mod 64) = v"
    and "byte0 v = a" and "byte1 v = b" and "byte2 v = c"
proof -
  show "quantum_val ((v div 262144) mod 64) ((v div 4096) mod 64) ((v div 64) mod 64) (v mod 64) = v"
    unfolding v_def by (rule quantum_val_full [OF val3_bound])
  have "unat b * 256 + unat c < 65536" using byte_lt [of b] byte_lt [of c] by linarith
  from byte0_val [OF this, of a] show "byte0 v = a" by (simp add: v_def add.assoc)
  from byte1_val [OF byte_lt [of c], of "unat a" b] show "byte1 v = b" by (simp add: v_def)
  from byte2_val [of "unat a" "unat b" c] show "byte2 v = c" by (simp add: v_def)
qed

lemma decode_quantum2:
  fixes a b :: byte
  defines "v \<equiv> unat a * 65536 + unat b * 256"
  shows "quantum_val ((v div 262144) mod 64) ((v div 4096) mod 64) ((v div 64) mod 64) 0 = v"
    and "byte0 v = a" and "byte1 v = b"
proof -
  have "v = (unat a * 1024 + unat b * 4) * 64" by (simp add: v_def)
  then have m: "v mod 64 = 0" by simp
  have "v < 16777216" using val3_bound [of a b 0] by (simp add: v_def)
  from quantum_val_full [OF this] show
    "quantum_val ((v div 262144) mod 64) ((v div 4096) mod 64) ((v div 64) mod 64) 0 = v"
    by (simp add: m)
  have "unat b * 256 < 65536" using byte_lt [of b] by linarith
  from byte0_val [OF this, of a] show "byte0 v = a" by (simp add: v_def)
  from byte1_val [of 0 "unat a" b] show "byte1 v = b" by (simp add: v_def)
qed

lemma decode_quantum1:
  fixes a :: byte
  defines "v \<equiv> unat a * 65536"
  shows "quantum_val ((v div 262144) mod 64) ((v div 4096) mod 64) 0 0 = v"
    and "byte0 v = a"
proof -
  have "v = (unat a * 1024) * 64" by (simp add: v_def)
  then have m0: "v mod 64 = 0" by simp
  have "v div 64 = (unat a * 16) * 64" by (simp add: v_def)
  then have m1: "v div 64 mod 64 = 0" by simp
  note m = m1 m0
  have "v < 16777216" using val3_bound [of a 0 0] by (simp add: v_def)
  from quantum_val_full [OF this] show
    "quantum_val ((v div 262144) mod 64) ((v div 4096) mod 64) 0 0 = v"
    by (simp add: m)
  from byte0_val [of 0 a] show "byte0 v = a" by (simp add: v_def)
qed



lemma decodeQuanta_EncodeToString: "decodeQuanta (EncodeToString X) = Some X"
proof (induction X rule: EncodeToString.induct)
  case (1 a b c rest)
  define v where "v = unat a * 65536 + unat b * 256 + unat c"
  have "EncodeToString (a # b # c # rest) =
          encode_at (v div 262144) # encode_at (v div 4096) # encode_at (v div 64) #
          encode_at v # EncodeToString rest"
    by (simp only: EncodeToString.simps Let_def v_def)
  with 1 show ?case
    by (simp add: decodeMap_encode_at decode_quantum3 [of a b c, folded v_def])
next
  case (2 a b)
  define v where "v = unat a * 65536 + unat b * 256"
  have "EncodeToString [a, b] =
          [encode_at (v div 262144), encode_at (v div 4096), encode_at (v div 64), StdPadding]"
    by (simp only: EncodeToString.simps Let_def v_def)
  then show ?case
    by (simp add: decodeMap_encode_at decodeMap_padding decode_quantum2 [of a b, folded v_def])
next
  case (3 a)
  define v where "v = unat a * 65536"
  have "EncodeToString [a] =
          [encode_at (v div 262144), encode_at (v div 4096), StdPadding, StdPadding]"
    by (simp only: EncodeToString.simps Let_def v_def)
  then show ?case
    by (simp add: decodeMap_encode_at decodeMap_padding decode_quantum1 [of a, folded v_def])
next
  case 4
  then show ?case by simp
qed

lemma StdPadding_not_newline: "StdPadding \<noteq> CHR 0x0A \<and> StdPadding \<noteq> CHR 0x0D"
  by (simp add: StdPadding_def)

lemma filter_newlines_EncodeToString:
  "filter (\<lambda>c. c \<noteq> CHR 0x0A \<and> c \<noteq> CHR 0x0D) (EncodeToString X) = EncodeToString X"
  by (induction X rule: EncodeToString.induct)
     (simp_all add: Let_def encode_at_not_newline StdPadding_not_newline)

lemma DecodeString_EncodeToString: "DecodeString (EncodeToString X) = Inr X"
  by (simp add: DecodeString_def filter_newlines_EncodeToString decodeQuanta_EncodeToString)

section \<open>Properties of the credential resolver\<close>

lemma fst_after [simp]: "fst (after evs r) = fst r"
  by (simp add: after_def)

lemma snd_after [simp]: "snd (after evs r) = evs @ snd r"
  by (simp add: after_def)

lemma after_pair [simp]: "after evs (x, evs') = (x, evs @ evs')"
  by (simp add: after_def)

lemma buildKubeRestConf_events:
  "set (snd (buildKubeRestConf g c l p ua ts)) \<subseteq>
     {Call_NewService ts,
      Call_ClustersGet (''projects/'' @ p @ ''/locations/'' @ l @ ''/clusters/'' @ c)}"
  by (auto simp: buildKubeRestConf_def Let_def split: option.splits sum.splits)

lemma SAKey_events:
  "snd (GoogleCredTokenSourceFromSAKey g key) =
     (case ReadFile g key of
        Inl e \<Rightarrow> [Call_ReadFile key]
      | Inr b \<Rightarrow> [Call_ReadFile key, Call_CredentialsFromJSON b])"
  by (simp add: GoogleCredTokenSourceFromSAKey_def split: sum.splits)

section \<open>Properties of the orchestrator\<close>

lemma run_calls_append: "run_calls (evs @ evs') = run_calls evs @ run_calls evs'"
  by (induction evs rule: run_calls.induct) simp_all

lemma run_failures_append: "run_failures (evs @ evs') = run_failures evs + run_failures evs'"
  by (induction evs rule: run_failures.induct) simp_all

lemma kubeconfig_calls_append:
  "kubeconfig_calls (evs @ evs') = kubeconfig_calls evs @ kubeconfig_calls evs'"
  by (induction evs rule: kubeconfig_calls.induct) simp_all

lemma default_token_sources_append:
  "default_token_sources (evs @ evs') = default_token_sources evs + default_token_sources evs'"
  by (induction evs rule: default_token_sources.induct) simp_all

text \<open>What \<open>buildAddonsRuntime\<close> does towards the outside holds no run, log or \<open>KubeConfig\<close>.\<close>

lemma buildAddonsRuntime_events:
  "set (snd (buildAddonsRuntime w f kubeC mainFile)) \<subseteq>
     {Call_VaultNewClient, Call_NewForConfig kubeC} \<union> {Call_RuntimeNew config opts | config opts. True}"
  by (auto simp: buildAddonsRuntime_def Let_def split: sum.splits option.splits)

lemma quiet_events:
  assumes "set evs \<subseteq> {Call_VaultNewClient, Call_NewForConfig kubeC} \<union>
             {Call_RuntimeNew config opts | config opts. True}"
  shows "run_calls evs = [] \<and> run_failures evs = 0 \<and> kubeconfig_calls evs = [] \<and>
         default_token_sources evs = 0"
  using assms by (induction evs) auto

lemmas buildAddonsRuntime_quiet = quiet_events [OF buildAddonsRuntime_events]

text \<open>One visit in which every step up to the run succeeds.\<close>

lemma visit_steps_succeed:
  assumes "steps_succeed w f mainFile v"
  shows "fst (visit w f cmd mainFile v errorReturned) =
           Inr (errorReturned \<or> workload_fails w f cmd mainFile v)"
    and "run_calls (snd (visit w f cmd mainFile v errorReturned)) =
           [(addons_for w f mainFile v, cmd, AddonSkyCtx v)]"
    and "run_failures (snd (visit w f cmd mainFile v errorReturned)) =
           (if workload_fails w f cmd mainFile v then 1 else 0)"
    and "kubeconfig_calls (snd (visit w f cmd mainFile v errorReturned)) = [vendor_String v]"
    and "default_token_sources (snd (visit w f cmd mainFile v errorReturned)) =
           count_list (snd (KubeConfig v)) Call_DefaultTokenSource"
proof -
  from assms obtain kubeConfig addons where
    k: "fst (KubeConfig v) = Ok kubeConfig" and
    a: "fst (buildAddonsRuntime w f kubeConfig mainFile) = Ok addons" and
    l: "Load w addons = None"
    by (auto simp: steps_succeed_def addons_for_def split: result.splits)
  obtain evs where b: "buildAddonsRuntime w f kubeConfig mainFile = (Ok addons, evs)"
    using a by (cases "buildAddonsRuntime w f kubeConfig mainFile") simp
  have q: "run_calls evs = []" "run_failures evs = 0" "kubeconfig_calls evs = []"
    "default_token_sources evs = 0"
    using buildAddonsRuntime_quiet [of w f kubeConfig mainFile] b by simp_all
  have af: "addons_for w f mainFile v = Ok addons"
    using k a by (simp add: addons_for_def)
  show "fst (visit w f cmd mainFile v errorReturned) =
           Inr (errorReturned \<or> workload_fails w f cmd mainFile v)"
    using k b l af by (simp add: visit_def workload_fails_def split: option.splits)
  show "run_calls (snd (visit w f cmd mainFile v errorReturned)) =
           [(addons_for w f mainFile v, cmd, AddonSkyCtx v)]"
    using k b l af q by (simp add: visit_def run_calls_append split: option.splits)
  show "run_failures (snd (visit w f cmd mainFile v errorReturned)) =
           (if workload_fails w f cmd mainFile v then 1 else 0)"
    using k b l af q
    by (simp add: visit_def workload_fails_def run_failures_append split: option.splits)
  show "kubeconfig_calls (snd (visit w f cmd mainFile v errorReturned)) = [vendor_String v]"
    using k b l af q by (simp add: visit_def kubeconfig_calls_append split: option.splits)
  show "default_token_sources (snd (visit w f cmd mainFile v errorReturned)) =
           count_list (snd (KubeConfig v)) Call_DefaultTokenSource"
    using k b l af q by (simp add: visit_def default_token_sources_append split: option.splits)
qed

text \<open>A visit that returns has passed every step up to the run; one that ends the process
  does so by \<open>log.Exitf\<close> or a panic.\<close>

lemma visit_returns:
  assumes "fst (visit w f cmd mainFile v errorReturned) = Inr b"
  shows "steps_succeed w f mainFile v"
  using assms
  by (auto simp: visit_def steps_succeed_def addons_for_def
      split: result.splits prod.splits option.splits)

lemma visit_exits:
  assumes "fst (visit w f cmd mainFile v errorReturned) = Inl out"
  shows "(\<exists>p. out = Panic p) \<or> (\<exists>m e. out = LogExitf m (Some e))"
  using assms
  by (auto simp: visit_def split: result.splits prod.splits option.splits)

text \<open>The iteration over vendors for which every step up to the run succeeds.\<close>

lemma for_each_steps_succeed:
  assumes "\<forall>v \<in> set vs. steps_succeed w f mainFile v"
  shows "fst (for_each (visit w f cmd mainFile) vs errorReturned) =
           Inr (errorReturned \<or> (\<exists>v \<in> set vs. workload_fails w f cmd mainFile v)) \<and>
         run_calls (snd (for_each (visit w f cmd mainFile) vs errorReturned)) =
           map (\<lambda>v. (addons_for w f mainFile v, cmd, AddonSkyCtx v)) vs \<and>
         run_failures (snd (for_each (visit w f cmd mainFile) vs errorReturned)) =
           length (filter (workload_fails w f cmd mainFile) vs) \<and>
         kubeconfig_calls (snd (for_each (visit w f cmd mainFile) vs errorReturned)) =
           map vendor_String vs \<and>
         default_token_sources (snd (for_each (visit w f cmd mainFile) vs errorReturned)) =
           sum_list (map (\<lambda>v. count_list (snd (KubeConfig v)) Call_DefaultTokenSource) vs)"
  using assms
proof (induction vs arbitrary: errorReturned)
  case Nil
  then show ?case by simp
next
  case (Cons v vs)
  then have s: "steps_succeed w f mainFile v" by simp
  obtain evs where
    v: "visit w f cmd mainFile v errorReturned =
          (Inr (errorReturned \<or> workload_fails w f cmd mainFile v), evs)"
    using visit_steps_succeed(1) [OF s, of cmd errorReturned]
    by (cases "visit w f cmd mainFile v errorReturned") simp
  have e: "run_calls evs = [(addons_for w f mainFile v, cmd, AddonSkyCtx v)]"
    "run_failures evs = (if workload_fails w f cmd mainFile v then 1 else 0)"
    "kubeconfig_calls evs = [vendor_String v]"
    "default_token_sources evs = count_list (snd (KubeConfig v)) Call_DefaultTokenSource"
    using visit_steps_succeed(2,3,4,5) [OF s, of cmd errorReturned] v by simp_all
  from Cons have ih: "\<forall>v \<in> set vs. steps_succeed w f mainFile v" by simp
  note IH = Cons.IH [OF ih, of "errorReturned \<or> workload_fails w f cmd mainFile v"]
  show ?case
    using IH v e
    by (auto simp: run_calls_append run_failures_append kubeconfig_calls_append
        default_token_sources_append)
qed

lemma for_each_returns:
  assumes "fst (for_each (visit w f cmd mainFile) vs errorReturned) = Inr b"
  shows "\<forall>v \<in> set vs. steps_succeed w f mainFile v"
  using assms
proof (induction vs arbitrary: errorReturned)
  case Nil
  then show ?case by simp
next
  case (Cons v vs)
  show ?case
  proof (cases "visit w f cmd mainFile v errorReturned")
    case (Pair r evs)
    show ?thesis
    proof (cases r)
      case (Inl out)
      with Pair Cons.prems show ?thesis by simp
    next
      case (Inr b')
      with Pair have "steps_succeed w f mainFile v"
        using visit_returns [of w f cmd mainFile v errorReturned b'] by simp
      moreover from Pair Inr Cons.prems
      have "fst (for_each (visit w f cmd mainFile) vs b') = Inr b" by simp
      then have "\<forall>v \<in> set vs. steps_succeed w f mainFile v" by (rule Cons.IH)
      ultimately show ?thesis by simp
    qed
  qed
qed

lemma for_each_exits:
  assumes "fst (for_each (visit w f cmd mainFile) vs errorReturned) = Inl out"
  shows "(\<exists>p. out = Panic p) \<or> (\<exists>m e. out = LogExitf m (Some e))"
  using assms
proof (induction vs arbitrary: errorReturned)
  case Nil
  then show ?case by simp
next
  case (Cons v vs)
  show ?case
  proof (cases "visit w f cmd mainFile v errorReturned")
    case (Pair r evs)
    show ?thesis
    proof (cases r)
      case (Inl out')
      with Pair Cons.prems have "fst (visit w f cmd mainFile v errorReturned) = Inl out"
        by simp
      then show ?thesis by (rule visit_exits)
    next
      case (Inr b')
      with Pair Cons.prems
      have "fst (for_each (visit w f cmd mainFile) vs b') = Inl out" by simp
      then show ?thesis by (rule Cons.IH)
    qed
  qed
qed

text \<open>The iteration stops at the first visit that ends the process.\<close>

lemma for_each_stops:
  assumes "for_each fn vs1 errorReturned = (Inr b, evs1)"
    and "fn v b = (Inl out, evs)"
  shows "for_each fn (vs1 @ v # vs2) errorReturned = (Inl out, evs1 @ evs)"
  using assms
proof (induction vs1 arbitrary: errorReturned evs1)
  case Nil
  then show ?case by simp
next
  case (Cons u us)
  obtain r eu where u: "fn u errorReturned = (r, eu)"
    by (cases "fn u errorReturned")
  show ?case
  proof (cases r)
    case (Inl out')
    with u Cons.prems show ?thesis by simp
  next
    case (Inr b')
    obtain r' es where rest: "for_each fn us b' = (r', es)"
      by (cases "for_each fn us b'")
    with u Inr Cons.prems have "r' = Inr b" "evs1 = eu @ es" by simp_all
    with rest Cons.IH [of b' es] Cons.prems(2)
    have "for_each fn (us @ v # vs2) b' = (Inl out, es @ evs)" by simp
    with u Inr \<open>evs1 = eu @ es\<close> show ?thesis by simp
  qed
qed

text \<open>\<open>main\<close> once it has reached the iteration over the clusters.\<close>

lemma main_reaches_clusters:
  assumes "reaches_clusters w f cmd path ctxParams clusters"
  shows "main w f =
     after ([Call_ParseCommaSeparatedParams (isopodCtx f)] @
            snd (buildClustersRuntime w f path) @ [Call_Load clusters])
       (case ForEachCluster w clusters ctxParams (visit w f cmd path) False of
          (Inl out, evs) \<Rightarrow> (out, evs)
        | (Inr (Some err, errorReturned), evs) \<Rightarrow>
            (LogExitf ''Failed to iterate through clusters'' (Some err), evs)
        | (Inr (None, errorReturned), evs) \<Rightarrow>
            if errorReturned then (OsExit 2, evs) else (Return, evs))"
proof -
  obtain evs where b: "buildClustersRuntime w f path = (Inr clusters, evs)"
    using assms by (cases "buildClustersRuntime w f path") (simp add: reaches_clusters_def)
  show ?thesis
    using assms b by (simp add: reaches_clusters_def main_def after_def)
qed

lemma buildClustersRuntime_events:
  "snd (buildClustersRuntime w f path) =
     [Call_RuntimeNew \<lparr>EntryFile = path, GCPSvcAcctKeyFile = svcAcctKeyFile f,
        Config_UserAgent = ''Isopod/'' @ version, KubeConfigPath = kubeconfig f,
        Config_Store = None, DryRun = dryRun f\<rparr> []]"
  by (simp add: buildClustersRuntime_def Let_def split: option.splits)

section \<open>The concrete environment evaluated\<close>

lemma DecodeString_empty: "DecodeString [] = Inr []"
  by (simp add: DecodeString_def)

lemma DecodeString_bang: "DecodeString ''!'' = Inl CorruptInputError"
  by (simp add: DecodeString_def)

lemma example_KubeConfig_default:
  "KubeConfig (example_vendor (example_gcp '''') n '''') =
     (Ok \<lparr>Host = ''https://10.0.0.1'', CAData = [], WrapTransport = TokenSource ''default'',
          UserAgent = ''Isopod/<unknown>''\<rparr>,
      [Call_DefaultTokenSource, Call_NewService (TokenSource ''default''),
       Call_ClustersGet (''projects/acme/locations/us-central1/clusters/'' @ n)])"
  by (simp add: example_vendor_def example_gcp_def BuildKubeRestConfSACred_def
      BuildKubeRestConfDefaultCred_def buildKubeRestConf_def DecodeString_empty version_def)

lemma example_KubeConfig_corrupt:
  "KubeConfig (example_vendor (example_gcp ''!'') n '''') =
     (Err (Errorf ''failed to base64 decode the cluster CA cert'' CorruptInputError),
      [Call_DefaultTokenSource, Call_NewService (TokenSource ''default''),
       Call_ClustersGet (''projects/acme/locations/us-central1/clusters/'' @ n)])"
  by (simp add: example_vendor_def example_gcp_def BuildKubeRestConfSACred_def
      BuildKubeRestConfDefaultCred_def buildKubeRestConf_def DecodeString_bang version_def)

lemma example_vendor_fields:
  "vendor_String (example_vendor g n key) = n"
  "AddonSkyCtx (example_vendor g n key) = SkyCtx [(''cluster'', n)]"
  by (simp_all add: example_vendor_def)

lemma example_world_fields:
  "RunUnitTests (example_world vs failing vd) = (\<lambda>path. (False, None))"
  "ParseCommaSeparatedParams (example_world vs failing vd) = (\<lambda>s. Inr [])"
  "runtime_New (example_world vs failing vd) = (\<lambda>config opts. None)"
  "Load (example_world vs failing vd) = (\<lambda>rt. None)"
  "clusters_yielded (example_world vs failing vd) = (\<lambda>rt ps. (vs, None))"
  "vaultapi_NewClient (example_world vs failing vd) =
     (if vd then Inl (External ''bad VAULT_ADDR'') else Inr (VaultClient ''''))"
  "kubernetes_NewForConfig (example_world vs failing vd) = (\<lambda>c. None)"
  "regexp_Compile (example_world vs failing vd) =
     (\<lambda>s. if s = ''('' then Some (External ''missing closing )'') else None)"
  "filepath_Dir (example_world vs failing vd) = (\<lambda>p. ''.'')"
  "Run (example_world vs failing vd) rt cmd (SkyCtx [(''cluster'', n)]) =
     (if n \<in> set failing then Some (External ''apply failed'') else None)"
  by (auto simp: example_world_def)

lemma example_flags_fields:
  "vaultToken (example_flags argv) = ''s.token''"
  "namespace (example_flags argv) = ''default''"
  "kubeconfig (example_flags argv) = ''''"
  "addonRegex (example_flags argv) = ''''"
  "isopodCtx (example_flags argv) = ''''"
  "dryRun (example_flags argv) = False"
  "svcAcctKeyFile (example_flags argv) = ''''"
  "noSpin (example_flags argv) = False"
  "kubeDiff (example_flags argv) = False"
  "showVersion (example_flags argv) = False"
  "relativePath (example_flags argv) = ''''"
  "Args (example_flags argv) = argv"
  by (simp_all add: example_flags_def)

lemma example_reaches:
  "reaches_clusters (example_world vs failing vd) (example_flags [''install'', ''main.ipd''])
     ''install'' ''main.ipd'' []
     (Runtime \<lparr>EntryFile = ''main.ipd'', GCPSvcAcctKeyFile = '''',
               Config_UserAgent = ''Isopod/<unknown>'', KubeConfigPath = '''',
               Config_Store = None, DryRun = False\<rparr> [])"
  by (simp add: reaches_clusters_def example_world_fields example_flags_fields
      buildClustersRuntime_def TestCommand_def version_def Let_def)

lemma example_addons_for:
  "\<exists>addons. addons_for (example_world vs failing False) (example_flags argv) ''main.ipd''
      (example_vendor (example_gcp '''') n '''') = Ok addons"
  by (simp add: addons_for_def example_KubeConfig_default buildAddonsRuntime_def
      example_world_fields example_flags_fields Let_def)

lemma example_steps_succeed:
  "steps_succeed (example_world vs failing False) (example_flags argv) ''main.ipd''
      (example_vendor (example_gcp '''') n '''')"
  using example_addons_for [of vs failing argv n]
  by (auto simp: steps_succeed_def example_world_fields)


section \<open>The requirements on the credential resolver\<close>

text \<open>
  C6. For every byte string \<open>X\<close>: when the cluster-management API answers the lookup
  with a cluster whose CA certificate field is the standard base64 encoding of \<open>X\<close>,
  the lookup procedure succeeds, the CA data of the resulting client configuration
  is \<open>X\<close> itself (decoding undoes encoding), and its host is \<open>https://\<close> followed by
  the endpoint returned.
\<close>

theorem ca_certificate_roundtrip:
  assumes "NewService g ts = None"
    and "Clusters_Get g ts (''projects/'' @ p @ ''/locations/'' @ l @ ''/clusters/'' @ c) = Inr cl"
    and "MasterAuth cl = Some ma"
    and "ClusterCaCertificate ma = EncodeToString X"
  shows "DecodeString (EncodeToString X) = Inr X \<and>
         fst (buildKubeRestConf g c l p ua ts) =
           Ok \<lparr>Host = ''https://'' @ Endpoint cl, CAData = X, WrapTransport = ts, UserAgent = ua\<rparr>"
  using assms by (simp add: buildKubeRestConf_def Let_def DecodeString_EncodeToString)

lemma EncodeToString_M: "EncodeToString [0x4d] = ''TQ==''"
  by (simp add: encode_at_def encodeStd_def StdPadding_def)

theorem ca_certificate_roundtrip_witness:
  "NewService (example_gcp ''TQ=='') (TokenSource ''default'') = None \<and>
   Clusters_Get (example_gcp ''TQ=='') (TokenSource ''default'')
     (''projects/'' @ ''acme'' @ ''/locations/'' @ ''us-central1'' @ ''/clusters/'' @ ''prod'') =
     Inr \<lparr>Endpoint = ''10.0.0.1'', MasterAuth = Some \<lparr>ClusterCaCertificate = ''TQ==''\<rparr>\<rparr> \<and>
   ClusterCaCertificate \<lparr>ClusterCaCertificate = ''TQ==''\<rparr> = EncodeToString [0x4d] \<and>
   fst (buildKubeRestConf (example_gcp ''TQ=='') ''prod'' ''us-central1'' ''acme'' ''Isopod/1''
          (TokenSource ''default'')) =
     Ok \<lparr>Host = ''https://10.0.0.1'', CAData = [0x4d], WrapTransport = TokenSource ''default'',
         UserAgent = ''Isopod/1''\<rparr>"
proof -
  let ?ma = "\<lparr>ClusterCaCertificate = ''TQ==''\<rparr>"
  let ?cl = "\<lparr>Endpoint = ''10.0.0.1'', MasterAuth = Some ?ma\<rparr>"
  have h1: "NewService (example_gcp ''TQ=='') (TokenSource ''default'') = None"
    by (simp add: example_gcp_def)
  have h2: "Clusters_Get (example_gcp ''TQ=='') (TokenSource ''default'')
      (''projects/'' @ ''acme'' @ ''/locations/'' @ ''us-central1'' @ ''/clusters/'' @ ''prod'') =
      Inr ?cl"
    by (simp add: example_gcp_def)
  have h3: "MasterAuth ?cl = Some ?ma"
    by simp
  have h4: "ClusterCaCertificate ?ma = EncodeToString [0x4d]"
    unfolding EncodeToString_M by simp
  have "fst (buildKubeRestConf (example_gcp ''TQ=='') ''prod'' ''us-central1'' ''acme''
          ''Isopod/1'' (TokenSource ''default'')) =
        Ok \<lparr>Host = ''https://'' @ Endpoint ?cl, CAData = [0x4d],
            WrapTransport = TokenSource ''default'', UserAgent = ''Isopod/1''\<rparr>"
    using ca_certificate_roundtrip [OF h1 h2 h3 h4] by (rule conjunct2)
  then have "fst (buildKubeRestConf (example_gcp ''TQ=='') ''prod'' ''us-central1'' ''acme''
          ''Isopod/1'' (TokenSource ''default'')) =
        Ok \<lparr>Host = ''https://10.0.0.1'', CAData = [0x4d],
            WrapTransport = TokenSource ''default'', UserAgent = ''Isopod/1''\<rparr>"
    by simp
  with h1 h2 h4 show ?thesis by (intro conjI)
qed

text \<open>
  C7. The entry point dispatches on the service-account key path. With an empty path
  it is the default-credential resolver, equal to it on all remaining arguments. With
  a non-empty path it is the service-account strategy: the token source comes from
  \<open>GoogleCredTokenSourceFromSAKey\<close> and goes into the shared lookup procedure, the
  first call made is the read of the key file, and the default credentials are never
  asked for. On the empty path the first call asks for the default credentials and no
  file is read.
\<close>

theorem resolver_dispatch:
  "BuildKubeRestConfSACred g c l p '''' ua = BuildKubeRestConfDefaultCred g c l p ua \<and>
   hd (snd (BuildKubeRestConfSACred g c l p '''' ua)) = Call_DefaultTokenSource \<and>
   (\<forall>path. Call_ReadFile path \<notin> set (snd (BuildKubeRestConfSACred g c l p '''' ua))) \<and>
   (key \<noteq> '''' \<longrightarrow>
      BuildKubeRestConfSACred g c l p key ua =
        (case GoogleCredTokenSourceFromSAKey g key of
           (Ok tokenSrc, evs) \<Rightarrow> after evs (buildKubeRestConf g c l p ua tokenSrc)
         | (Err err, evs) \<Rightarrow> (Err (Errorf ''failed to get token source from service account'' err), evs)
         | (Panics pn, evs) \<Rightarrow> (Panics pn, evs)) \<and>
      hd (snd (BuildKubeRestConfSACred g c l p key ua)) = Call_ReadFile key \<and>
      Call_DefaultTokenSource \<notin> set (snd (BuildKubeRestConfSACred g c l p key ua)))"
proof -
  have default_events: "Call_ReadFile path \<notin> set (snd (BuildKubeRestConfDefaultCred g c l p ua))" for path
    using buildKubeRestConf_events [of g c l p ua]
    by (auto simp: BuildKubeRestConfDefaultCred_def split: sum.splits)
  have sa_first: "hd (snd (BuildKubeRestConfSACred g c l p key ua)) = Call_ReadFile key"
    if "key \<noteq> ''''"
    using that
    by (simp add: BuildKubeRestConfSACred_def GoogleCredTokenSourceFromSAKey_def
        split: sum.splits)
  have sa_no_default:
    "Call_DefaultTokenSource \<notin> set (snd (BuildKubeRestConfSACred g c l p key ua))"
    if "key \<noteq> ''''"
    using that buildKubeRestConf_events [of g c l p ua]
    by (auto simp: BuildKubeRestConfSACred_def GoogleCredTokenSourceFromSAKey_def
        split: sum.splits)
  show ?thesis
    using default_events sa_first sa_no_default
    by (simp add: BuildKubeRestConfSACred_def) (simp add: BuildKubeRestConfDefaultCred_def)
qed

theorem resolver_dispatch_witness:
  "''/key.json'' \<noteq> '''' \<and>
   hd (snd (BuildKubeRestConfSACred (example_gcp '''') ''prod'' ''us-central1'' ''acme''
              ''/key.json'' ''Isopod/1'')) = Call_ReadFile ''/key.json'' \<and>
   Call_DefaultTokenSource \<notin>
     set (snd (BuildKubeRestConfSACred (example_gcp '''') ''prod'' ''us-central1'' ''acme''
                 ''/key.json'' ''Isopod/1'')) \<and>
   BuildKubeRestConfSACred (example_gcp '''') ''prod'' ''us-central1'' ''acme'' '''' ''Isopod/1'' =
     BuildKubeRestConfDefaultCred (example_gcp '''') ''prod'' ''us-central1'' ''acme'' ''Isopod/1''"
proof -
  have ne: "''/key.json'' \<noteq> ''''"
    by simp
  from ne resolver_dispatch [of "example_gcp ''''" "''prod''" "''us-central1''" "''acme''"
      "''Isopod/1''" "''/key.json''"]
  show ?thesis by blast
qed

text \<open>
  C8. For every service-account key file that cannot be read (missing or unreadable),
  resolution fails with the error of the file read, and the read of the file is the
  only call made: no management-API client is constructed and no cluster is looked up.
\<close>

theorem unreadable_key_file_fails_first:
  assumes "ReadFile g key = Inl err"
  shows "GoogleCredTokenSourceFromSAKey g key =
           (Err (Errorf (''failed to read the SA key json file `'' @ key @ [CHR 0x27]) err),
            [Call_ReadFile key]) \<and>
         (key \<noteq> '''' \<longrightarrow>
            BuildKubeRestConfSACred g c l p key ua =
              (Err (Errorf ''failed to get token source from service account''
                     (Errorf (''failed to read the SA key json file `'' @ key @ [CHR 0x27]) err)),
               [Call_ReadFile key]))"
  using assms
  by (simp add: BuildKubeRestConfSACred_def GoogleCredTokenSourceFromSAKey_def)

theorem unreadable_key_file_fails_first_witness:
  "ReadFile (example_gcp '''') ''/missing.json'' = Inl (External ''no such file'') \<and>
   ''/missing.json'' \<noteq> '''' \<and>
   BuildKubeRestConfSACred (example_gcp '''') ''prod'' ''us-central1'' ''acme''
       ''/missing.json'' ''Isopod/1'' =
     (Err (Errorf ''failed to get token source from service account''
            (Errorf (''failed to read the SA key json file `'' @ ''/missing.json'' @ [CHR 0x27])
               (External ''no such file''))),
      [Call_ReadFile ''/missing.json''])"
  using unreadable_key_file_fails_first [of "example_gcp ''''" "''/missing.json''"
      "External ''no such file''" "''prod''" "''us-central1''" "''acme''" "''Isopod/1''"]
  by (simp add: example_gcp_def)

section \<open>The requirements on the orchestrator\<close>

lemma main_all_steps_succeed:
  assumes r: "reaches_clusters w f cmd path ctxParams clusters"
    and y: "clusters_yielded w clusters ctxParams = (vs, None)"
    and s: "\<forall>v \<in> set vs. steps_succeed w f path v"
  shows "fst (main w f) =
           (if \<exists>v \<in> set vs. workload_fails w f cmd path v then OsExit 2 else Return)"
    and "run_calls (snd (main w f)) = map (\<lambda>v. (addons_for w f path v, cmd, AddonSkyCtx v)) vs"
    and "run_failures (snd (main w f)) = length (filter (workload_fails w f cmd path) vs)"
    and "kubeconfig_calls (snd (main w f)) = map vendor_String vs"
    and "default_token_sources (snd (main w f)) =
           sum_list (map (\<lambda>v. count_list (snd (KubeConfig v)) Call_DefaultTokenSource) vs)"
proof -
  note fe = for_each_steps_succeed [OF s, of cmd False]
  obtain evs where
    e: "for_each (visit w f cmd path) vs False =
          (Inr (\<exists>v \<in> set vs. workload_fails w f cmd path v), evs)"
    using fe by (cases "for_each (visit w f cmd path) vs False") simp
  have m: "main w f =
     after ([Call_ParseCommaSeparatedParams (isopodCtx f)] @
            snd (buildClustersRuntime w f path) @ [Call_Load clusters])
       (if \<exists>v \<in> set vs. workload_fails w f cmd path v
        then (OsExit 2, Call_ForEachCluster clusters ctxParams # evs)
        else (Return, Call_ForEachCluster clusters ctxParams # evs))"
    unfolding main_reaches_clusters [OF r] by (simp add: ForEachCluster_def y e)
  show "fst (main w f) =
           (if \<exists>v \<in> set vs. workload_fails w f cmd path v then OsExit 2 else Return)"
    by (simp add: m)
  show "run_calls (snd (main w f)) = map (\<lambda>v. (addons_for w f path v, cmd, AddonSkyCtx v)) vs"
    using fe e by (simp add: m buildClustersRuntime_events run_calls_append)
  show "run_failures (snd (main w f)) = length (filter (workload_fails w f cmd path) vs)"
    using fe e by (simp add: m buildClustersRuntime_events run_failures_append)
  show "kubeconfig_calls (snd (main w f)) = map vendor_String vs"
    using fe e by (simp add: m buildClustersRuntime_events kubeconfig_calls_append)
  show "default_token_sources (snd (main w f)) =
           sum_list (map (\<lambda>v. count_list (snd (KubeConfig v)) Call_DefaultTokenSource) vs)"
    using fe e by (simp add: m buildClustersRuntime_events default_token_sources_append)
qed



lemma main_kubeconfig_fails:
  assumes r: "reaches_clusters w f cmd path ctxParams clusters"
    and y: "fst (clusters_yielded w clusters ctxParams) = vs1 @ v # vs2"
    and s: "\<forall>u \<in> set vs1. steps_succeed w f path u"
    and k: "fst (KubeConfig v) = Err e"
  shows "fst (main w f) =
           LogExitf (''Failed to build kube rest config for k8s vendor '' @ vendor_String v) (Some e)"
    and "kubeconfig_calls (snd (main w f)) = map vendor_String vs1 @ [vendor_String v]"
    and "run_calls (snd (main w f)) = map (\<lambda>u. (addons_for w f path u, cmd, AddonSkyCtx u)) vs1"
proof -
  let ?out = "LogExitf (''Failed to build kube rest config for k8s vendor '' @ vendor_String v) (Some e)"
  let ?ev = "Call_KubeConfig (vendor_String v) (snd (KubeConfig v))"
  note fe = for_each_steps_succeed [OF s, of cmd False]
  obtain b evs1 where e1: "for_each (visit w f cmd path) vs1 False = (Inr b, evs1)"
    using fe by (cases "for_each (visit w f cmd path) vs1 False") simp
  have v: "visit w f cmd path v b = (Inl ?out, [?ev])"
    using k by (simp add: visit_def)
  have all: "for_each (visit w f cmd path) (vs1 @ v # vs2) False = (Inl ?out, evs1 @ [?ev])"
    using e1 v by (rule for_each_stops)
  have m: "main w f =
     after ([Call_ParseCommaSeparatedParams (isopodCtx f)] @
            snd (buildClustersRuntime w f path) @ [Call_Load clusters])
       (?out, Call_ForEachCluster clusters ctxParams # evs1 @ [?ev])"
    unfolding main_reaches_clusters [OF r] by (simp add: ForEachCluster_def y all)
  show "fst (main w f) = ?out"
    by (simp add: m)
  show "kubeconfig_calls (snd (main w f)) = map vendor_String vs1 @ [vendor_String v]"
    using fe e1 by (simp add: m buildClustersRuntime_events kubeconfig_calls_append)
  show "run_calls (snd (main w f)) = map (\<lambda>u. (addons_for w f path u, cmd, AddonSkyCtx u)) vs1"
    using fe e1 by (simp add: m buildClustersRuntime_events run_calls_append)
qed

text \<open>
  C5, as stated, fails: a certificate-decode failure is not confined to its cluster.
  Discovery yields cluster \<open>a\<close>, whose CA certificate field \<open>!\<close> is not base64, and
  then cluster \<open>b\<close>, for which every step would succeed. The process ends through
  \<open>log.Exitf\<close> at \<open>a\<close>; \<open>b\<close> is never resolved and nothing is run on it.
\<close>

theorem ca_decode_failure_counterexample:
  "steps_succeed
     (example_world [example_vendor (example_gcp ''!'') ''a'' '''',
                     example_vendor (example_gcp '''') ''b'' ''''] [] False)
     (example_flags [''install'', ''main.ipd'']) ''main.ipd''
     (example_vendor (example_gcp '''') ''b'' '''') \<and>
   fst (main (example_world [example_vendor (example_gcp ''!'') ''a'' '''',
                             example_vendor (example_gcp '''') ''b'' ''''] [] False)
          (example_flags [''install'', ''main.ipd''])) =
     LogExitf ''Failed to build kube rest config for k8s vendor a''
       (Some (Errorf ''failed to base64 decode the cluster CA cert'' CorruptInputError)) \<and>
   kubeconfig_calls
     (snd (main (example_world [example_vendor (example_gcp ''!'') ''a'' '''',
                                example_vendor (example_gcp '''') ''b'' ''''] [] False)
             (example_flags [''install'', ''main.ipd'']))) = [''a''] \<and>
   run_calls
     (snd (main (example_world [example_vendor (example_gcp ''!'') ''a'' '''',
                                example_vendor (example_gcp '''') ''b'' ''''] [] False)
             (example_flags [''install'', ''main.ipd'']))) = []"
proof -
  let ?a = "example_vendor (example_gcp ''!'') ''a'' ''''"
  let ?b = "example_vendor (example_gcp '''') ''b'' ''''"
  let ?w = "example_world [?a, ?b] [] False"
  let ?f = "example_flags [''install'', ''main.ipd'']"
  let ?c = "Runtime \<lparr>EntryFile = ''main.ipd'', GCPSvcAcctKeyFile = '''',
               Config_UserAgent = ''Isopod/<unknown>'', KubeConfigPath = '''',
               Config_Store = None, DryRun = False\<rparr> []"
  have r: "reaches_clusters ?w ?f ''install'' ''main.ipd'' [] ?c"
    by (rule example_reaches)
  have y: "fst (clusters_yielded ?w ?c []) = [] @ ?a # [?b]"
    by (simp add: example_world_fields)
  have s: "\<forall>u \<in> set []. steps_succeed ?w ?f ''main.ipd'' u"
    by simp
  have k: "fst (KubeConfig ?a) =
             Err (Errorf ''failed to base64 decode the cluster CA cert'' CorruptInputError)"
    by (simp add: example_KubeConfig_corrupt)
  from main_kubeconfig_fails [OF r y s k] example_steps_succeed [of "[?a, ?b]" "[]" _ "''b''"]
  show ?thesis by (simp add: example_vendor_fields)
qed

text \<open>
  C5, amended. When the cluster-management API answers the lookup with a CA certificate
  field that is not valid base64, the lookup procedure fails with the
  certificate-decode error, which differs from every cluster-lookup error, and produces
  no client configuration. For the orchestrator this failure is fatal to the whole
  process, not to that cluster alone: when it meets a vendor whose \<open>KubeConfig\<close> is
  that result, after vendors for which every step succeeded, the process ends through
  \<open>log.Exitf\<close> with that error, and the vendors discovery yields after it are
  neither resolved nor run.
\<close>

theorem ca_decode_failure_ends_the_run:
  assumes "NewService g ts = None"
    and "Clusters_Get g ts (''projects/'' @ p @ ''/locations/'' @ l @ ''/clusters/'' @ c) = Inr cl"
    and "MasterAuth cl = Some ma"
    and "DecodeString (ClusterCaCertificate ma) = Inl err"
    and "fst (KubeConfig v) = fst (buildKubeRestConf g c l p ua ts)"
    and "reaches_clusters w f cmd path ctxParams clusters"
    and "fst (clusters_yielded w clusters ctxParams) = vs1 @ v # vs2"
    and "\<forall>u \<in> set vs1. steps_succeed w f path u"
  shows "buildKubeRestConf g c l p ua ts =
           (Err (Errorf ''failed to base64 decode the cluster CA cert'' err),
            [Call_NewService ts,
             Call_ClustersGet (''projects/'' @ p @ ''/locations/'' @ l @ ''/clusters/'' @ c)]) \<and>
         (\<forall>e'. Errorf ''failed to base64 decode the cluster CA cert'' err \<noteq>
                Errorf ''failed to retrieve cluster info'' e') \<and>
         fst (main w f) =
           LogExitf (''Failed to build kube rest config for k8s vendor '' @ vendor_String v)
             (Some (Errorf ''failed to base64 decode the cluster CA cert'' err)) \<and>
         kubeconfig_calls (snd (main w f)) = map vendor_String vs1 @ [vendor_String v] \<and>
         run_calls (snd (main w f)) = map (\<lambda>u. (addons_for w f path u, cmd, AddonSkyCtx u)) vs1"
proof -
  have b: "buildKubeRestConf g c l p ua ts =
           (Err (Errorf ''failed to base64 decode the cluster CA cert'' err),
            [Call_NewService ts,
             Call_ClustersGet (''projects/'' @ p @ ''/locations/'' @ l @ ''/clusters/'' @ c)])"
    using assms(1-4) by (simp add: buildKubeRestConf_def Let_def)
  with assms(5)
  have k: "fst (KubeConfig v) = Err (Errorf ''failed to base64 decode the cluster CA cert'' err)"
    by simp
  from b main_kubeconfig_fails [OF assms(6) assms(7) assms(8) k] show ?thesis
    by simp
qed

theorem ca_decode_failure_ends_the_run_witness:
  "NewService (example_gcp ''!'') (TokenSource ''default'') = None \<and>
   DecodeString ''!'' = Inl CorruptInputError \<and>
   reaches_clusters
     (example_world [example_vendor (example_gcp '''') ''a'' '''',
                     example_vendor (example_gcp ''!'') ''b'' '''',
                     example_vendor (example_gcp '''') ''c'' ''''] [] False)
     (example_flags [''install'', ''main.ipd'']) ''install'' ''main.ipd'' []
     (Runtime \<lparr>EntryFile = ''main.ipd'', GCPSvcAcctKeyFile = '''',
               Config_UserAgent = ''Isopod/<unknown>'', KubeConfigPath = '''',
               Config_Store = None, DryRun = False\<rparr> []) \<and>
   fst (main (example_world [example_vendor (example_gcp '''') ''a'' '''',
                             example_vendor (example_gcp ''!'') ''b'' '''',
                             example_vendor (example_gcp '''') ''c'' ''''] [] False)
          (example_flags [''install'', ''main.ipd''])) =
     LogExitf ''Failed to build kube rest config for k8s vendor b''
       (Some (Errorf ''failed to base64 decode the cluster CA cert'' CorruptInputError)) \<and>
   kubeconfig_calls
     (snd (main (example_world [example_vendor (example_gcp '''') ''a'' '''',
                                example_vendor (example_gcp ''!'') ''b'' '''',
                                example_vendor (example_gcp '''') ''c'' ''''] [] False)
             (example_flags [''install'', ''main.ipd'']))) = [''a'', ''b'']"
proof -
  let ?a = "example_vendor (example_gcp '''') ''a'' ''''"
  let ?b = "example_vendor (example_gcp ''!'') ''b'' ''''"
  let ?c = "example_vendor (example_gcp '''') ''c'' ''''"
  let ?w = "example_world [?a, ?b, ?c] [] False"
  let ?f = "example_flags [''install'', ''main.ipd'']"
  let ?rt = "Runtime \<lparr>EntryFile = ''main.ipd'', GCPSvcAcctKeyFile = '''',
               Config_UserAgent = ''Isopod/<unknown>'', KubeConfigPath = '''',
               Config_Store = None, DryRun = False\<rparr> []"
  let ?ma = "\<lparr>ClusterCaCertificate = ''!''\<rparr>"
  let ?cl = "\<lparr>Endpoint = ''10.0.0.1'', MasterAuth = Some ?ma\<rparr>"
  have h1: "NewService (example_gcp ''!'') (TokenSource ''default'') = None"
    by (simp add: example_gcp_def)
  have h2: "Clusters_Get (example_gcp ''!'') (TokenSource ''default'')
      (''projects/'' @ ''acme'' @ ''/locations/'' @ ''us-central1'' @ ''/clusters/'' @ ''b'') =
      Inr ?cl"
    by (simp add: example_gcp_def)
  have h3: "MasterAuth ?cl = Some ?ma"
    by simp
  have h4: "DecodeString (ClusterCaCertificate ?ma) = Inl CorruptInputError"
    by (simp add: DecodeString_bang)
  have h5: "fst (KubeConfig ?b) =
      fst (buildKubeRestConf (example_gcp ''!'') ''b'' ''us-central1'' ''acme''
             ''Isopod/<unknown>'' (TokenSource ''default''))"
  proof -
    have "fst (buildKubeRestConf (example_gcp ''!'') ''b'' ''us-central1'' ''acme''
             ''Isopod/<unknown>'' (TokenSource ''default'')) =
          Err (Errorf ''failed to base64 decode the cluster CA cert'' CorruptInputError)"
      by (simp add: buildKubeRestConf_def example_gcp_def DecodeString_bang Let_def)
    then show ?thesis
      by (simp only: example_KubeConfig_corrupt fst_conv)
  qed
  have h6: "reaches_clusters ?w ?f ''install'' ''main.ipd'' [] ?rt"
    by (rule example_reaches)
  have h7: "fst (clusters_yielded ?w ?rt []) = [?a] @ ?b # [?c]"
    by (simp add: example_world_fields)
  have h8: "\<forall>u \<in> set [?a]. steps_succeed ?w ?f ''main.ipd'' u"
    by (simp add: example_steps_succeed)
  from ca_decode_failure_ends_the_run [OF h1 h2 h3 h4 h5 h6 h7 h8] h1 h6 DecodeString_bang
  show ?thesis by (simp add: example_vendor_fields)
qed

lemma buildKubeRestConf_counts:
  "count_list (snd (buildKubeRestConf g c l p ua ts)) Call_DefaultTokenSource = 0"
  "count_list (snd (buildKubeRestConf g c l p ua ts)) (Call_ReadFile key) = 0"
  using buildKubeRestConf_events [of g c l p ua ts] by (auto simp: count_list_0_iff)

lemma resolver_token_source_counts:
  "count_list (snd (BuildKubeRestConfSACred g c l p key ua)) Call_DefaultTokenSource =
     (if key = '''' then 1 else 0)"
  "count_list (snd (BuildKubeRestConfSACred g c l p key ua)) (Call_ReadFile key) =
     (if key = '''' then 0 else 1)"
  by (auto simp: BuildKubeRestConfSACred_def BuildKubeRestConfDefaultCred_def
      GoogleCredTokenSourceFromSAKey_def buildKubeRestConf_counts
      split: sum.splits result.splits prod.splits)

lemma sum_list_ones:
  assumes "\<forall>x \<in> set xs. h x = (1::nat)"
  shows "sum_list (map h xs) = length xs"
  using assms by (induction xs) simp_all

text \<open>
  C3, as stated, fails: the token source of the default credentials is not created once
  per process. In a run over the two clusters \<open>a\<close> and \<open>b\<close>, both resolved with the
  default credentials and both succeeding, \<open>google.DefaultTokenSource\<close> is called
  twice, once inside each cluster's \<open>KubeConfig\<close>.
\<close>

theorem token_source_counterexample:
  "kubeconfig_calls
     (snd (main (example_world [example_vendor (example_gcp '''') ''a'' '''',
                                example_vendor (example_gcp '''') ''b'' ''''] [] False)
             (example_flags [''install'', ''main.ipd'']))) = [''a'', ''b''] \<and>
   default_token_sources
     (snd (main (example_world [example_vendor (example_gcp '''') ''a'' '''',
                                example_vendor (example_gcp '''') ''b'' ''''] [] False)
             (example_flags [''install'', ''main.ipd'']))) = 2"
proof -
  let ?a = "example_vendor (example_gcp '''') ''a'' ''''"
  let ?b = "example_vendor (example_gcp '''') ''b'' ''''"
  let ?w = "example_world [?a, ?b] [] False"
  let ?f = "example_flags [''install'', ''main.ipd'']"
  let ?c = "Runtime \<lparr>EntryFile = ''main.ipd'', GCPSvcAcctKeyFile = '''',
               Config_UserAgent = ''Isopod/<unknown>'', KubeConfigPath = '''',
               Config_Store = None, DryRun = False\<rparr> []"
  have r: "reaches_clusters ?w ?f ''install'' ''main.ipd'' [] ?c"
    by (rule example_reaches)
  have y: "clusters_yielded ?w ?c [] = ([?a, ?b], None)"
    by (simp add: example_world_fields)
  have s: "\<forall>v \<in> set [?a, ?b]. steps_succeed ?w ?f ''main.ipd'' v"
    by (simp add: example_steps_succeed)
  from main_all_steps_succeed(4,5) [OF r y s] show ?thesis
    by (simp add: example_vendor_fields example_KubeConfig_default)
qed

text \<open>
  C3, amended. A token source is created once per credential-resolution call, so once
  per cluster, and nothing is shared between calls. On the default-credential path
  every call of the resolver asks \<open>google.DefaultTokenSource\<close> exactly once and reads
  no key file, and the configuration it returns wraps the token source obtained in
  that same call; on the service-account path every call reads the key file exactly
  once and never asks for the default credentials. A run of \<open>main\<close> over vendors
  that use the resolver's default path, all steps succeeding, therefore creates as many
  token sources as discovery yields clusters.
\<close>

theorem token_source_created_per_resolution:
  "count_list (snd (BuildKubeRestConfSACred g c l p key ua)) Call_DefaultTokenSource =
     (if key = '''' then 1 else 0) \<and>
   count_list (snd (BuildKubeRestConfSACred g c l p key ua)) (Call_ReadFile key) =
     (if key = '''' then 0 else 1) \<and>
   (\<forall>cfg. fst (BuildKubeRestConfSACred g c l p '''' ua) = Ok cfg \<longrightarrow>
          DefaultTokenSource g = Inr (WrapTransport cfg)) \<and>
   (reaches_clusters w f cmd path ctxParams clusters \<and>
    clusters_yielded w clusters ctxParams = (vs, None) \<and>
    (\<forall>v \<in> set vs. steps_succeed w f path v) \<and>
    (\<forall>v \<in> set vs. \<exists>c l p ua. KubeConfig v = BuildKubeRestConfSACred g c l p '''' ua) \<longrightarrow>
    default_token_sources (snd (main w f)) = length vs)"
proof -
  have wraps: "DefaultTokenSource g = Inr (WrapTransport cfg)"
    if "fst (BuildKubeRestConfSACred g c l p '''' ua) = Ok cfg" for cfg
    using that
    by (auto simp: BuildKubeRestConfSACred_def BuildKubeRestConfDefaultCred_def
        buildKubeRestConf_def Let_def split: sum.splits option.splits)
  have run: "default_token_sources (snd (main w f)) = length vs"
    if r: "reaches_clusters w f cmd path ctxParams clusters"
      and y: "clusters_yielded w clusters ctxParams = (vs, None)"
      and s: "\<forall>v \<in> set vs. steps_succeed w f path v"
      and d: "\<forall>v \<in> set vs. \<exists>c l p ua. KubeConfig v = BuildKubeRestConfSACred g c l p '''' ua"
  proof -
    from d have "\<forall>v \<in> set vs. count_list (snd (KubeConfig v)) Call_DefaultTokenSource = 1"
      by (auto simp: resolver_token_source_counts(1))
    then have "sum_list (map (\<lambda>v. count_list (snd (KubeConfig v)) Call_DefaultTokenSource) vs) =
               length vs"
      by (rule sum_list_ones)
    with main_all_steps_succeed(5) [OF r y s] show ?thesis by simp
  qed
  from wraps run show ?thesis
    by (simp add: resolver_token_source_counts)
qed

theorem token_source_created_per_resolution_witness:
  "reaches_clusters (example_world three_clusters [] False)
     (example_flags [''install'', ''main.ipd'']) ''install'' ''main.ipd'' []
     (Runtime \<lparr>EntryFile = ''main.ipd'', GCPSvcAcctKeyFile = '''',
               Config_UserAgent = ''Isopod/<unknown>'', KubeConfigPath = '''',
               Config_Store = None, DryRun = False\<rparr> []) \<and>
   steps_succeed (example_world three_clusters [] False)
     (example_flags [''install'', ''main.ipd'']) ''main.ipd''
     (example_vendor (example_gcp '''') ''a'' '''') \<and>
   steps_succeed (example_world three_clusters [] False)
     (example_flags [''install'', ''main.ipd'']) ''main.ipd''
     (example_vendor (example_gcp '''') ''b'' '''') \<and>
   steps_succeed (example_world three_clusters [] False)
     (example_flags [''install'', ''main.ipd'']) ''main.ipd''
     (example_vendor (example_gcp '''') ''c'' '''') \<and>
   KubeConfig (example_vendor (example_gcp '''') ''a'' '''') =
     BuildKubeRestConfSACred (example_gcp '''') ''a'' ''us-central1'' ''acme'' ''''
       (''Isopod/'' @ version) \<and>
   length three_clusters = 3 \<and>
   default_token_sources
     (snd (main (example_world three_clusters [] False)
             (example_flags [''install'', ''main.ipd'']))) = 3"
proof -
  let ?w = "example_world three_clusters [] False"
  let ?f = "example_flags [''install'', ''main.ipd'']"
  let ?c = "Runtime \<lparr>EntryFile = ''main.ipd'', GCPSvcAcctKeyFile = '''',
               Config_UserAgent = ''Isopod/<unknown>'', KubeConfigPath = '''',
               Config_Store = None, DryRun = False\<rparr> []"
  have r: "reaches_clusters ?w ?f ''install'' ''main.ipd'' [] ?c"
    by (rule example_reaches)
  have y: "clusters_yielded ?w ?c [] = (three_clusters, None)"
    by (simp add: example_world_fields)
  have s: "\<forall>v \<in> set three_clusters. steps_succeed ?w ?f ''main.ipd'' v"
    by (simp add: three_clusters_def example_steps_succeed)
  have d: "\<forall>v \<in> set three_clusters.
      \<exists>c l p ua. KubeConfig v = BuildKubeRestConfSACred (example_gcp '''') c l p '''' ua"
    unfolding three_clusters_def example_vendor_def by auto
  have n: "length three_clusters = 3"
    by (simp add: three_clusters_def)
  from token_source_created_per_resolution
    [of "example_gcp ''''" _ _ _ _ _ ?w ?f "''install''" "''main.ipd''" "[]" ?c three_clusters]
    r y s d n
  show ?thesis by (simp add: three_clusters_def) (simp add: example_vendor_def)
qed

text \<open>
  C9. When the \<open>--vault_token\<close> flag is absent or empty and \<open>$VAULT_TOKEN\<close> is empty,
  the process ends in \<open>init\<close> with \<open>log.Fatalf\<close>: nothing of \<open>main\<close> runs, whatever
  the arguments and the other flags are (the \<open>test\<close> command and \<open>--version\<close>
  included), and no call is made. Every process that gets past \<open>init\<close> has a
  non-empty Vault token.
\<close>

theorem vault_token_required:
  "((opt_vault_token c = None \<or> opt_vault_token c = Some '''') \<and> Getenv ''VAULT_TOKEN'' = '''' \<longrightarrow>
      process Getenv w (Accepted c) =
        (LogFatalf ''--vault_token or $VAULT_TOKEN must be set'', [])) \<and>
   (init Getenv a = Inr f \<longrightarrow> vaultToken f \<noteq> '''')"
  by (auto simp: process_def init_def flag_Parse_def Let_def split: argv.splits if_splits)

theorem vault_token_required_witness:
  "opt_vault_token (example_cmdline None [''test'', ''tests/'']) = None \<and>
   empty_environment ''VAULT_TOKEN'' = '''' \<and>
   process empty_environment (example_world [] [] False)
       (Accepted (example_cmdline None [''test'', ''tests/''])) =
     (LogFatalf ''--vault_token or $VAULT_TOKEN must be set'', []) \<and>
   init empty_environment (Accepted (example_cmdline (Some ''s.token'') [''test'', ''tests/''])) =
     Inr (example_flags [''test'', ''tests/'']) \<and>
   vaultToken (example_flags [''test'', ''tests/'']) \<noteq> ''''"
proof -
  have h1: "opt_vault_token (example_cmdline None [''test'', ''tests/'']) = None"
    by (simp add: example_cmdline_def)
  have h2: "empty_environment ''VAULT_TOKEN'' = ''''"
    by (simp add: empty_environment_def)
  have h3: "init empty_environment
              (Accepted (example_cmdline (Some ''s.token'') [''test'', ''tests/''])) =
            Inr (example_flags [''test'', ''tests/''])"
    by (simp add: init_def flag_Parse_def example_cmdline_def example_flags_def)
  from vault_token_required
    [of "example_cmdline None [''test'', ''tests/'']" empty_environment
       "example_world [] [] False"
       "Accepted (example_cmdline (Some ''s.token'') [''test'', ''tests/''])"
       "example_flags [''test'', ''tests/'']"]
    h1 h2 h3
  show ?thesis by simp
qed

text \<open>
  C4. When the command is \<open>test\<close>, the only things the process does towards the
  outside are the run of the unit tests on the given path and, under \<open>--version\<close>,
  the printing of the version: no clusters runtime is built or loaded, no cluster is
  iterated and no \<open>KubeConfig\<close> is called, whatever the path is. Once the process is
  past \<open>init\<close> and the command is looked at (no \<open>--version\<close>), \<open>main\<close> runs the unit
  tests and its outcome is a function of what the test runner returned, and of
  nothing else: an error is fatal, \<open>false\<close> gives \<open>os.Exit(1)\<close>, \<open>true\<close> a normal
  return.
\<close>

theorem test_command_skips_discovery:
  "(arguments c = TestCommand # rest \<longrightarrow>
      set (snd (process Getenv w (Accepted c))) \<subseteq>
        {Print_Version, Call_RunUnitTests (case rest of [] \<Rightarrow> [] | path # _ \<Rightarrow> path)}) \<and>
   (init Getenv a = Inr f \<and> \<not> showVersion f \<and> getCmdAndPath (Args f) = Inr (TestCommand, path) \<longrightarrow>
      process Getenv w a = main w f \<and>
      main w f = (test_outcome (RunUnitTests w path), [Call_RunUnitTests path]))"
proof -
  have events: "set (snd (main w f)) \<subseteq>
      {Print_Version, Call_RunUnitTests (case rest of [] \<Rightarrow> [] | path # _ \<Rightarrow> path)}"
    if "Args f = TestCommand # rest" for f
    using that
    by (cases rest) (auto simp: main_def split: prod.splits option.splits)
  have "set (snd (process Getenv w (Accepted c))) \<subseteq>
      {Print_Version, Call_RunUnitTests (case rest of [] \<Rightarrow> [] | path # _ \<Rightarrow> path)}"
    if c: "arguments c = TestCommand # rest"
  proof (cases "init Getenv (Accepted c)")
    case (Inl out)
    then show ?thesis by (simp add: process_def)
  next
    case (Inr f)
    then have "Args f = TestCommand # rest"
      using c by (auto simp: init_def flag_Parse_def Let_def split: if_splits)
    from events [OF this] Inr show ?thesis by (simp add: process_def)
  qed
  moreover have "main w f = (test_outcome (RunUnitTests w path), [Call_RunUnitTests path])"
    if "\<not> showVersion f" "getCmdAndPath (Args f) = Inr (TestCommand, path)"
    using that
    by (auto simp: main_def test_outcome_def split: prod.splits option.splits)
  ultimately show ?thesis
    by (simp add: process_def)
qed

theorem test_command_skips_discovery_witness:
  "arguments (example_cmdline (Some ''s.token'') [''test'', ''tests/'']) = TestCommand # [''tests/''] \<and>
   init empty_environment (Accepted (example_cmdline (Some ''s.token'') [''test'', ''tests/''])) =
     Inr (example_flags [''test'', ''tests/'']) \<and>
   \<not> showVersion (example_flags [''test'', ''tests/'']) \<and>
   getCmdAndPath (Args (example_flags [''test'', ''tests/''])) = Inr (TestCommand, ''tests/'') \<and>
   process empty_environment (example_world three_clusters [] False)
       (Accepted (example_cmdline (Some ''s.token'') [''test'', ''tests/''])) =
     (OsExit 1, [Call_RunUnitTests ''tests/''])"
proof -
  have h1: "arguments (example_cmdline (Some ''s.token'') [''test'', ''tests/'']) =
              TestCommand # [''tests/'']"
    by (simp add: example_cmdline_def TestCommand_def)
  have h2: "init empty_environment
              (Accepted (example_cmdline (Some ''s.token'') [''test'', ''tests/''])) =
            Inr (example_flags [''test'', ''tests/''])"
    by (simp add: init_def flag_Parse_def example_cmdline_def example_flags_def)
  have h3: "\<not> showVersion (example_flags [''test'', ''tests/''])"
    by (simp add: example_flags_fields)
  have h4: "getCmdAndPath (Args (example_flags [''test'', ''tests/''])) =
              Inr (TestCommand, ''tests/'')"
    by (simp add: example_flags_fields TestCommand_def)
  have t: "test_outcome (RunUnitTests (example_world three_clusters [] False) ''tests/'') =
             OsExit 1"
    by (simp add: example_world_fields test_outcome_def)
  from test_command_skips_discovery
    [of "example_cmdline (Some ''s.token'') [''test'', ''tests/'']" "[''tests/'']"
       empty_environment "example_world three_clusters [] False"
       "Accepted (example_cmdline (Some ''s.token'') [''test'', ''tests/''])"
       "example_flags [''test'', ''tests/'']" "''tests/''"]
    h1 h2 h3 h4 t
  show ?thesis by simp
qed

lemma main_visit_exits:
  assumes r: "reaches_clusters w f cmd path ctxParams clusters"
    and y: "fst (clusters_yielded w clusters ctxParams) = vs1 @ v # vs2"
    and s: "\<forall>u \<in> set vs1. steps_succeed w f path u"
    and v: "\<And>b. fst (visit w f cmd path v b) = Inl out"
  shows "fst (main w f) = out"
proof -
  note fe = for_each_steps_succeed [OF s, of cmd False]
  obtain b evs1 where e1: "for_each (visit w f cmd path) vs1 False = (Inr b, evs1)"
    using fe by (cases "for_each (visit w f cmd path) vs1 False") simp
  obtain evs where vb: "visit w f cmd path v b = (Inl out, evs)"
    using v [of b] by (cases "visit w f cmd path v b") simp
  have all: "for_each (visit w f cmd path) (vs1 @ v # vs2) False = (Inl out, evs1 @ evs)"
    using e1 vb by (rule for_each_stops)
  show ?thesis
    unfolding main_reaches_clusters [OF r] by (simp add: ForEachCluster_def y all)
qed

lemma buildAddonsRuntime_invalid_regex:
  assumes "regexp_Compile w (addonRegex f) = Some err"
  shows "fst (buildAddonsRuntime w f kubeC mainFile) =
           (case vaultapi_NewClient w of
              Inl e \<Rightarrow> Err (Errorf ''failed to initialize Vault client'' e)
            | Inr vaultC \<Rightarrow>
                (case kubernetes_NewForConfig w kubeC of
                   Some e \<Rightarrow> Err (Errorf ''failed to create Kubernetes clientset'' e)
                 | None \<Rightarrow> Panics (RegexpMustCompile (addonRegex f) err)))"
  using assms by (simp add: buildAddonsRuntime_def Let_def split: sum.splits option.splits)

lemma buildAddonsRuntime_valid_regex:
  assumes "regexp_Compile w (addonRegex f) = None"
  shows "fst (buildAddonsRuntime w f kubeC mainFile) \<noteq> Panics p"
  using assms by (simp add: buildAddonsRuntime_def Let_def split: sum.splits option.splits)

text \<open>
  C10, as stated, fails: with a malformed \<open>--match_addons\<close> the construction of the
  addons runtime does not always panic. Here the flag is \<open>(\<close>, which
  \<open>regexp.Compile\<close> rejects, and the Vault client cannot be made:
  \<open>buildAddonsRuntime\<close> returns the wrapped Vault error before it reaches
  \<open>regexp.MustCompile\<close>, and \<open>main\<close> ends through \<open>log.Exitf\<close>, the fatal-error
  path, not by a panic.
\<close>

theorem invalid_regex_counterexample:
  "regexp_Compile (example_world [example_vendor (example_gcp '''') ''a'' ''''] [] True)
     (addonRegex ((example_flags [''install'', ''main.ipd''])\<lparr>addonRegex := ''(''\<rparr>)) =
     Some (External ''missing closing )'') \<and>
   buildAddonsRuntime (example_world [example_vendor (example_gcp '''') ''a'' ''''] [] True)
     ((example_flags [''install'', ''main.ipd''])\<lparr>addonRegex := ''(''\<rparr>)
     \<lparr>Host = ''https://10.0.0.1'', CAData = [], WrapTransport = TokenSource ''default'',
      UserAgent = ''Isopod/<unknown>''\<rparr> ''main.ipd'' =
     (Err (Errorf ''failed to initialize Vault client'' (External ''bad VAULT_ADDR'')),
      [Call_VaultNewClient]) \<and>
   fst (main (example_world [example_vendor (example_gcp '''') ''a'' ''''] [] True)
          ((example_flags [''install'', ''main.ipd''])\<lparr>addonRegex := ''(''\<rparr>)) =
     LogExitf ''Failed to initialize runtime''
       (Some (Errorf ''failed to initialize Vault client'' (External ''bad VAULT_ADDR'')))"
proof -
  let ?a = "example_vendor (example_gcp '''') ''a'' ''''"
  let ?w = "example_world [?a] [] True"
  let ?f = "(example_flags [''install'', ''main.ipd''])\<lparr>addonRegex := ''(''\<rparr>"
  let ?k = "\<lparr>Host = ''https://10.0.0.1'', CAData = [], WrapTransport = TokenSource ''default'',
      UserAgent = ''Isopod/<unknown>''\<rparr>"
  let ?c = "Runtime \<lparr>EntryFile = ''main.ipd'', GCPSvcAcctKeyFile = '''',
               Config_UserAgent = ''Isopod/<unknown>'', KubeConfigPath = '''',
               Config_Store = None, DryRun = False\<rparr> []"
  let ?out = "LogExitf ''Failed to initialize runtime''
       (Some (Errorf ''failed to initialize Vault client'' (External ''bad VAULT_ADDR'')))"
  have c: "regexp_Compile ?w (addonRegex ?f) = Some (External ''missing closing )'')"
    by (simp add: example_world_fields)
  have b: "buildAddonsRuntime ?w ?f ?k ''main.ipd'' =
     (Err (Errorf ''failed to initialize Vault client'' (External ''bad VAULT_ADDR'')),
      [Call_VaultNewClient])"
    by (simp add: buildAddonsRuntime_def example_world_fields)
  have r: "reaches_clusters ?w ?f ''install'' ''main.ipd'' [] ?c"
    using example_reaches [of "[?a]" "[]" True]
    by (simp add: reaches_clusters_def buildClustersRuntime_def Let_def example_flags_def)
  have y: "fst (clusters_yielded ?w ?c []) = [] @ ?a # []"
    by (simp add: example_world_fields)
  have s: "\<forall>u \<in> set []. steps_succeed ?w ?f ''main.ipd'' u"
    by simp
  have v: "fst (visit ?w ?f ''install'' ''main.ipd'' ?a b) = Inl ?out" for b
    by (simp add: visit_def example_KubeConfig_default b)
  from c b main_visit_exits [OF r y s v] show ?thesis
    by (intro conjI)
qed

text \<open>
  C10, amended. In every call of \<open>buildAddonsRuntime\<close> in which \<open>--match_addons\<close> is
  not a valid regular expression, no runtime is returned: the call returns the
  wrapped error of the Vault client or of the Kubernetes clientset when one of these
  fails first, and otherwise, having made both, panics in \<open>regexp.MustCompile\<close>
  instead of returning a wrapped error. \<open>main\<close> then ends by that panic at the first
  cluster, not through \<open>log.Exitf\<close>. When \<open>regexp.Compile\<close> accepts the flag's value,
  \<open>buildAddonsRuntime\<close> never panics.
\<close>

theorem invalid_addon_regex_panics:
  "(regexp_Compile w (addonRegex f) = Some err \<longrightarrow>
      fst (buildAddonsRuntime w f kubeC mainFile) =
        (case vaultapi_NewClient w of
           Inl e \<Rightarrow> Err (Errorf ''failed to initialize Vault client'' e)
         | Inr vaultC \<Rightarrow>
             (case kubernetes_NewForConfig w kubeC of
                Some e \<Rightarrow> Err (Errorf ''failed to create Kubernetes clientset'' e)
              | None \<Rightarrow> Panics (RegexpMustCompile (addonRegex f) err))) \<and>
      (reaches_clusters w f cmd mainFile ctxParams clusters \<and>
       fst (clusters_yielded w clusters ctxParams) = v # vs \<and>
       fst (KubeConfig v) = Ok kubeC \<and>
       vaultapi_NewClient w = Inr vaultC \<and>
       kubernetes_NewForConfig w kubeC = None \<longrightarrow>
       fst (main w f) = Panic (RegexpMustCompile (addonRegex f) err))) \<and>
   (regexp_Compile w (addonRegex f) = None \<longrightarrow>
      (\<forall>p. fst (buildAddonsRuntime w f kubeC mainFile) \<noteq> Panics p))"
proof -
  have panics: "fst (main w f) = Panic (RegexpMustCompile (addonRegex f) err)"
    if c: "regexp_Compile w (addonRegex f) = Some err"
      and r: "reaches_clusters w f cmd mainFile ctxParams clusters"
      and y: "fst (clusters_yielded w clusters ctxParams) = v # vs"
      and k: "fst (KubeConfig v) = Ok kubeC"
      and vc: "vaultapi_NewClient w = Inr vaultC"
      and cs: "kubernetes_NewForConfig w kubeC = None"
  proof -
    have b: "fst (buildAddonsRuntime w f kubeC mainFile) =
               Panics (RegexpMustCompile (addonRegex f) err)"
      using buildAddonsRuntime_invalid_regex [OF c, of kubeC mainFile] vc cs by simp
    have y': "fst (clusters_yielded w clusters ctxParams) = [] @ v # vs"
      using y by simp
    have s: "\<forall>u \<in> set []. steps_succeed w f mainFile u"
      by simp
    have "fst (visit w f cmd mainFile v b) = Inl (Panic (RegexpMustCompile (addonRegex f) err))"
      for b
      using k b
      by (cases "buildAddonsRuntime w f kubeC mainFile") (simp add: visit_def)
    from main_visit_exits [OF r y' s this] show ?thesis .
  qed
  show ?thesis
    using buildAddonsRuntime_invalid_regex [of w f _ kubeC mainFile]
      buildAddonsRuntime_valid_regex [of w f kubeC mainFile] panics
    by blast
qed

theorem invalid_addon_regex_panics_witness:
  "regexp_Compile (example_world [example_vendor (example_gcp '''') ''a'' ''''] [] False)
     (addonRegex ((example_flags [''install'', ''main.ipd''])\<lparr>addonRegex := ''(''\<rparr>)) =
     Some (External ''missing closing )'') \<and>
   fst (KubeConfig (example_vendor (example_gcp '''') ''a'' '''')) =
     Ok \<lparr>Host = ''https://10.0.0.1'', CAData = [], WrapTransport = TokenSource ''default'',
         UserAgent = ''Isopod/<unknown>''\<rparr> \<and>
   vaultapi_NewClient (example_world [example_vendor (example_gcp '''') ''a'' ''''] [] False) =
     Inr (VaultClient '''') \<and>
   fst (main (example_world [example_vendor (example_gcp '''') ''a'' ''''] [] False)
          ((example_flags [''install'', ''main.ipd''])\<lparr>addonRegex := ''(''\<rparr>)) =
     Panic (RegexpMustCompile ''('' (External ''missing closing )'')) \<and>
   regexp_Compile (example_world [] [] False) (addonRegex (example_flags [])) = None \<and>
   fst (buildAddonsRuntime (example_world [] [] False) (example_flags [])
          \<lparr>Host = ''https://10.0.0.1'', CAData = [], WrapTransport = TokenSource ''default'',
           UserAgent = ''Isopod/<unknown>''\<rparr> ''main.ipd'') \<noteq>
     Panics (RegexpMustCompile '''' (External ''missing closing )''))"
proof -
  let ?a = "example_vendor (example_gcp '''') ''a'' ''''"
  let ?w = "example_world [?a] [] False"
  let ?f = "(example_flags [''install'', ''main.ipd''])\<lparr>addonRegex := ''(''\<rparr>"
  let ?k = "\<lparr>Host = ''https://10.0.0.1'', CAData = [], WrapTransport = TokenSource ''default'',
      UserAgent = ''Isopod/<unknown>''\<rparr>"
  let ?c = "Runtime \<lparr>EntryFile = ''main.ipd'', GCPSvcAcctKeyFile = '''',
               Config_UserAgent = ''Isopod/<unknown>'', KubeConfigPath = '''',
               Config_Store = None, DryRun = False\<rparr> []"
  have c: "regexp_Compile ?w (addonRegex ?f) = Some (External ''missing closing )'')"
    by (simp add: example_world_fields)
  have r: "reaches_clusters ?w ?f ''install'' ''main.ipd'' [] ?c"
    using example_reaches [of "[?a]" "[]" False]
    by (simp add: reaches_clusters_def buildClustersRuntime_def Let_def example_flags_def)
  have y: "fst (clusters_yielded ?w ?c []) = ?a # []"
    by (simp add: example_world_fields)
  have k: "fst (KubeConfig ?a) = Ok ?k"
    by (simp add: example_KubeConfig_default)
  have vc: "vaultapi_NewClient ?w = Inr (VaultClient '''')"
    by (simp add: example_world_fields)
  have cs: "kubernetes_NewForConfig ?w ?k = None"
    by (simp add: example_world_fields)
  have ar: "addonRegex ?f = ''(''"
    by simp
  have c2: "regexp_Compile (example_world [] [] False) (addonRegex (example_flags [])) = None"
    by (simp add: example_world_fields example_flags_fields)
  note t1 = invalid_addon_regex_panics
    [of ?w ?f "External ''missing closing )''" ?k "''main.ipd''" "''install''" "[]" ?c ?a "[]"
       "VaultClient ''''"]
  note t2 = invalid_addon_regex_panics
    [of "example_world [] [] False" "example_flags []" _ ?k "''main.ipd''"]
  from t1 c r y k vc cs
  have m: "fst (main ?w ?f) = Panic (RegexpMustCompile (addonRegex ?f) (External ''missing closing )''))"
    by blast
  from t2 c2
  have n: "fst (buildAddonsRuntime (example_world [] [] False) (example_flags []) ?k ''main.ipd'')
             \<noteq> Panics (RegexpMustCompile '''' (External ''missing closing )''))"
    by blast
  from c k vc m n c2 show ?thesis
    unfolding ar by (intro conjI)
qed











end
